theory Spec2Isabelle
  imports Main "HOL-Library.Word" "HOL-Library.AList"
begin

section \<open>The numpy operations used by \<open>jina/types/ndarray/__init__.py\<close>\<close>

text \<open>
  The module serialises arrays with \<open>ndarray.tobytes()\<close> and rebuilds them with
  \<open>np.frombuffer(...).reshape(...)\<close>. A numpy array is therefore represented by what
  these calls see of it: the descriptor \<open>dtype.str\<close>, the shape, and the row-major bytes.
\<close>

type_synonym byte = "8 word"
type_synonym bytes = "byte list"

text \<open>
  Python exceptions raised by the module or by the libraries it calls. \<open>Unmodelled\<close> marks
  library behaviour this development does not describe (for example a dtype descriptor
  outside the table below); no theorem draws a conclusion from it.
\<close>

datatype error =
    TypeError
  | ValueError
  | IndexError
  | AttributeError
  | NotImplementedError
  | StopIteration
  | OverflowError
  | RuntimeError
  | Unmodelled

record ndarray =
  nd_dtype :: string
  nd_shape :: "nat list"
  nd_data :: bytes

text \<open>
  The fixed-width numeric descriptors that \<open>dtype.str\<close> produces, with their item size
  in bytes. The first character is the byte order, the second the kind.
\<close>

definition np_dtypes :: "(string \<times> nat) list" where
  "np_dtypes =
     [(''|b1'', 1), (''|i1'', 1), (''|u1'', 1),
      (''<i2'', 2), (''>i2'', 2), (''<i4'', 4), (''>i4'', 4), (''<i8'', 8), (''>i8'', 8),
      (''<u2'', 2), (''>u2'', 2), (''<u4'', 4), (''>u4'', 4), (''<u8'', 8), (''>u8'', 8),
      (''<f2'', 2), (''>f2'', 2), (''<f4'', 4), (''>f4'', 4), (''<f8'', 8), (''>f8'', 8),
      (''<c8'', 8), (''>c8'', 8), (''<c16'', 16), (''>c16'', 16)]"

definition np_itemsize :: "string \<Rightarrow> nat option" where
  "np_itemsize d = map_of np_dtypes d"

text \<open>
  The limits of numpy (version 1, 64-bit host): an array has at most \<open>NPY_MAXDIMS\<close>
  axes, and a size in items or in bytes is a signed 64-bit integer (\<open>npy_intp\<close>).
\<close>

definition NPY_MAXDIMS :: nat where
  "NPY_MAXDIMS = 32"

definition NPY_MAX_INTP :: int where
  "NPY_MAX_INTP = 9223372036854775807"

text \<open>\<open>np.frombuffer(buf, dtype=d)\<close>: a one-dimensional view of the whole buffer.\<close>

definition np_frombuffer :: "bytes \<Rightarrow> string \<Rightarrow> error + ndarray" where
  "np_frombuffer buf d =
     (case np_itemsize d of
        None \<Rightarrow> Inl Unmodelled
      | Some sz \<Rightarrow>
          if length buf mod sz \<noteq> 0 then Inl ValueError
          else Inr \<lparr>nd_dtype = d, nd_shape = [length buf div sz], nd_data = buf\<rparr>)"

text \<open>
  \<open>a.reshape(dims)\<close>. A negative entry is the dimension to infer; numpy refuses more
  than \<open>NPY_MAXDIMS\<close> entries, more than one entry to infer, a known product of zero
  next to an inferred dimension, and a size that the known product does not divide. The
  known entries are multiplied from left to right in \<open>npy_intp\<close>, and an overflow on the
  way (before a zero entry ends it) is refused as well.
\<close>

definition np_reshape :: "ndarray \<Rightarrow> int list \<Rightarrow> error + ndarray" where
  "np_reshape a dims =
     (let size = prod_list (nd_shape a);
          unknown = filter (\<lambda>d. d < 0) dims;
          known_dims = map nat (filter (\<lambda>d. 0 \<le> d) dims);
          known = prod_list known_dims
      in if NPY_MAXDIMS < length dims then Inl ValueError
         else if 1 < length unknown then Inl ValueError
         else if NPY_MAX_INTP < int (prod_list (takeWhile (\<lambda>n. n \<noteq> 0) known_dims))
           then Inl ValueError
         else if unknown = [] then
           (if known = size then Inr (a\<lparr>nd_shape := map nat dims\<rparr>) else Inl ValueError)
         else if known = 0 \<or> size mod known \<noteq> 0 then Inl ValueError
         else Inr (a\<lparr>nd_shape := map (\<lambda>d. if d < 0 then size div known else nat d) dims\<rparr>))"

text \<open>
  \<open>np.zeros(shape)\<close>: float64 (\<open><f8\<close> on a little-endian host), every byte zero.
  numpy refuses a shape of more than \<open>NPY_MAXDIMS\<close> axes, and a shape whose non-zero
  entries, multiplied with the item size of 8 bytes, exceed \<open>npy_intp\<close>. The allocation
  itself is taken to succeed: running out of memory is not described.
\<close>

definition np_zeros :: "nat list \<Rightarrow> error + ndarray" where
  "np_zeros shp =
     (if NPY_MAXDIMS < length shp then Inl ValueError
      else if NPY_MAX_INTP < 8 * int (prod_list (filter (\<lambda>n. n \<noteq> 0) shp)) then Inl ValueError
      else Inr \<lparr>nd_dtype = ''<f8'', nd_shape = shp, nd_data = replicate (8 * prod_list shp) 0\<rparr>)"

text \<open>\<open>a[k]\<close> for a non-negative integer \<open>k\<close>: the \<open>k\<close>-th block along the first axis.\<close>

definition np_getitem :: "ndarray \<Rightarrow> nat \<Rightarrow> error + ndarray" where
  "np_getitem a k =
     (case nd_shape a of
        [] \<Rightarrow> Inl IndexError
      | n # rest \<Rightarrow>
          if n \<le> k then Inl IndexError
          else (let block = length (nd_data a) div n
                in Inr \<lparr>nd_dtype = nd_dtype a, nd_shape = rest,
                        nd_data = take block (drop (k * block) (nd_data a))\<rparr>))"

text \<open>
  What numpy guarantees of every array whose dtype is in the table: the byte count is the
  element count times the item size, and the array is within the limits above.
\<close>

definition wf_ndarray :: "ndarray \<Rightarrow> bool" where
  "wf_ndarray a =
     (case np_itemsize (nd_dtype a) of
        None \<Rightarrow> False
      | Some sz \<Rightarrow>
          length (nd_data a) = prod_list (nd_shape a) * sz
          \<and> length (nd_shape a) \<le> NPY_MAXDIMS
          \<and> int (length (nd_data a)) \<le> NPY_MAX_INTP)"

section \<open>The wire records\<close>

text \<open>
  \<open>DenseNdArrayProto\<close>, \<open>SparseNdArrayProto\<close> and \<open>NdArrayProto\<close> are generated from
  the protobuf schema. The fields are those the module reads and writes; a \<open>oneof\<close> is a
  datatype, and \<open>parameters\<close> (a string-keyed structure) is an association list.
\<close>

record DenseNdArrayProto =
  buffer :: bytes
  shape :: "nat list"
  dtype :: string

record SparseNdArrayProto =
  indices :: DenseNdArrayProto
  sparse_values :: DenseNdArrayProto
  sparse_shape :: "nat list"

datatype content = NotSet | Dense DenseNdArrayProto | Sparse SparseNdArrayProto

record NdArrayProto =
  content :: content
  cls_name :: string
  parameters :: "(string \<times> string) list"

section \<open>Dense encode and decode\<close>

text \<open>
  \<open>_get_dense_array(source)\<close>. Python's \<open>None\<close> (the function ends without
  \<open>return\<close>) is \<open>Inr None\<close>.
\<close>

definition get_dense_array :: "DenseNdArrayProto \<Rightarrow> error + ndarray option" where
  "get_dense_array source =
     (if buffer source \<noteq> [] then
        (case np_frombuffer (buffer source) (dtype source) of
           Inl e \<Rightarrow> Inl e
         | Inr x \<Rightarrow>
             (case np_reshape x (map int (shape source)) of
                Inl e \<Rightarrow> Inl e
              | Inr y \<Rightarrow> Inr (Some y)))
      else if 0 < length (shape source) then
        (case np_zeros (shape source) of
           Inl e \<Rightarrow> Inl e
         | Inr z \<Rightarrow> Inr (Some z))
      else Inr None)"

text \<open>\<open>_set_dense_array(value, target)\<close>: the three fields of \<open>target\<close> are overwritten.\<close>

definition set_dense_array :: "ndarray \<Rightarrow> DenseNdArrayProto \<Rightarrow> DenseNdArrayProto" where
  "set_dense_array v target =
     target\<lparr>buffer := nd_data v, shape := nd_shape v, dtype := nd_dtype v\<rparr>"

text \<open>\<open>_unravel_dense_array(source, shape, dtype)\<close>.\<close>

definition unravel_dense_array :: "bytes list \<Rightarrow> nat list \<Rightarrow> string \<Rightarrow> error + ndarray" where
  "unravel_dense_array source shp d =
     (let x_mat = concat source;
          shp' = (-1) # map int shp
      in case np_frombuffer x_mat d of
           Inl e \<Rightarrow> Inl e
         | Inr x \<Rightarrow> np_reshape x shp')"

section \<open>More numpy: elements, integers, transposition, stacking\<close>

text \<open>\<open>chunks n xs\<close> cuts \<open>xs\<close> into consecutive pieces of length \<open>n\<close>.\<close>

fun chunks :: "nat \<Rightarrow> 'a list \<Rightarrow> 'a list list" where
  "chunks n xs = (if n = 0 \<or> xs = [] then [] else take n xs # chunks n (drop n xs))"

declare chunks.simps [simp del]

text \<open>Little-endian bytes of a non-negative integer, and back.\<close>

definition bytes_to_int :: "bytes \<Rightarrow> int" where
  "bytes_to_int bs = foldr (\<lambda>b acc. uint b + 256 * acc) bs 0"

definition int_to_bytes :: "nat \<Rightarrow> int \<Rightarrow> bytes" where
  "int_to_bytes n x = map (\<lambda>i. word_of_int (x div 256 ^ i)) [0..<n]"

text \<open>
  One element of an integer array as a Python integer: kind \<open>i\<close> is two's complement,
  kinds \<open>u\<close> and \<open>b\<close> are unsigned; a leading \<open>>\<close> is big-endian. Other kinds are not decoded.
\<close>

definition np_decode_int :: "string \<Rightarrow> bytes \<Rightarrow> int option" where
  "np_decode_int d bs =
     (case d of
        ord # kind # _ \<Rightarrow>
          (let v = bytes_to_int (if ord = CHR ''>'' then rev bs else bs)
           in if kind = CHR ''i'' then
                Some (if 2 ^ (8 * length bs - 1) \<le> v then v - 2 ^ (8 * length bs) else v)
              else if kind = CHR ''u'' \<or> kind = CHR ''b'' then Some v
              else None)
      | _ \<Rightarrow> None)"

definition np_encode_int :: "string \<Rightarrow> nat \<Rightarrow> int \<Rightarrow> bytes" where
  "np_encode_int d sz x =
     (let bs = int_to_bytes sz (x mod 2 ^ (8 * sz))
      in if take 1 d = ''>'' then rev bs else bs)"

text \<open>The elements of an array of integers, in row-major order (\<open>a.ravel().tolist()\<close>).\<close>

definition np_to_ints :: "ndarray \<Rightarrow> int list option" where
  "np_to_ints a =
     (case np_itemsize (nd_dtype a) of
        None \<Rightarrow> None
      | Some sz \<Rightarrow> those (map (np_decode_int (nd_dtype a)) (chunks sz (nd_data a))))"

text \<open>
  \<open>np.array(xs, dtype=d)\<close> for a list of Python integers and a signed integer dtype;
  numpy refuses a value the dtype cannot hold.
\<close>

definition np_of_ints :: "string \<Rightarrow> int list \<Rightarrow> error + ndarray" where
  "np_of_ints d xs =
     (case np_itemsize d of
        None \<Rightarrow> Inl Unmodelled
      | Some sz \<Rightarrow>
          if take 1 (drop 1 d) \<noteq> ''i'' then Inl Unmodelled
          else if list_ex (\<lambda>x. x < - (2 ^ (8 * sz - 1)) \<or> 2 ^ (8 * sz - 1) \<le> x) xs
            then Inl OverflowError
          else Inr \<lparr>nd_dtype = d, nd_shape = [length xs],
                    nd_data = concat (map (np_encode_int d sz) xs)\<rparr>)"

text \<open>
  \<open>a.T\<close>: the axes reversed. On the row-major element list, the blocks along the first
  axis are transposed one by one and then interleaved.
\<close>

fun transpose_elems :: "nat list \<Rightarrow> 'a list \<Rightarrow> 'a list" where
  "transpose_elems [] xs = xs"
| "transpose_elems (d # ds) xs =
     concat (transpose (map (transpose_elems ds) (chunks (prod_list ds) xs)))"

definition np_T :: "ndarray \<Rightarrow> error + ndarray" where
  "np_T a =
     (case np_itemsize (nd_dtype a) of
        None \<Rightarrow> Inl Unmodelled
      | Some sz \<Rightarrow>
          Inr \<lparr>nd_dtype = nd_dtype a, nd_shape = rev (nd_shape a),
               nd_data = concat (transpose_elems (nd_shape a) (chunks sz (nd_data a)))\<rparr>)"

text \<open>
  \<open>np.stack([a, b], axis=1)\<close> for two one-dimensional arrays of one dtype: element
  \<open>i\<close> of \<open>a\<close> followed by element \<open>i\<close> of \<open>b\<close>.
\<close>

definition np_stack_axis1 :: "ndarray \<Rightarrow> ndarray \<Rightarrow> error + ndarray" where
  "np_stack_axis1 a b =
     (if nd_shape a \<noteq> nd_shape b then Inl ValueError
      else if length (nd_shape a) \<noteq> 1 \<or> nd_dtype a \<noteq> nd_dtype b then Inl Unmodelled
      else
        (case np_itemsize (nd_dtype a) of
           None \<Rightarrow> Inl Unmodelled
         | Some sz \<Rightarrow>
             Inr \<lparr>nd_dtype = nd_dtype a, nd_shape = nd_shape a @ [2],
                  nd_data = concat (map2 (@) (chunks sz (nd_data a)) (chunks sz (nd_data b)))\<rparr>))"

text \<open>Running a fallible step over a list; the first error ends the run.\<close>

fun mapE :: "('a \<Rightarrow> error + 'b) \<Rightarrow> 'a list \<Rightarrow> error + 'b list" where
  "mapE f [] = Inr []"
| "mapE f (x # xs) =
     (case f x of
        Inl e \<Rightarrow> Inl e
      | Inr y \<Rightarrow> (case mapE f xs of Inl e \<Rightarrow> Inl e | Inr ys \<Rightarrow> Inr (y # ys)))"

text \<open>
  Joining arrays promotes them to a common dtype. Only the promotion between int32 and
  int64 (the index dtypes that occur) is described.
\<close>

definition np_result_type :: "ndarray list \<Rightarrow> string option" where
  "np_result_type arrs =
     (if list_all (\<lambda>a. nd_dtype a = ''<i4'') arrs then Some ''<i4''
      else if list_all (\<lambda>a. nd_dtype a = ''<i4'' \<or> nd_dtype a = ''<i8'') arrs then Some ''<i8''
      else None)"

definition np_astype :: "string \<Rightarrow> ndarray \<Rightarrow> error + ndarray" where
  "np_astype d a =
     (if nd_dtype a = d then Inr a
      else
        (case np_to_ints a of
           None \<Rightarrow> Inl Unmodelled
         | Some xs \<Rightarrow>
             (case np_of_ints d xs of
                Inl e \<Rightarrow> Inl e
              | Inr b \<Rightarrow> Inr (b\<lparr>nd_shape := nd_shape a\<rparr>))))"

definition atleast_2d :: "ndarray \<Rightarrow> ndarray" where
  "atleast_2d a =
     (if length (nd_shape a) < 2 then a\<lparr>nd_shape := [1, prod_list (nd_shape a)]\<rparr> else a)"

text \<open>
  \<open>np.vstack(arrs)\<close> for arrays of at most two dimensions: the rows of the arguments,
  one argument after the other.
\<close>

definition np_vstack :: "ndarray list \<Rightarrow> error + ndarray" where
  "np_vstack arrs =
     (case map atleast_2d arrs of
        [] \<Rightarrow> Inl ValueError
      | a # rest \<Rightarrow>
          if list_ex (\<lambda>b. length (nd_shape b) \<noteq> length (nd_shape a)) rest then Inl ValueError
          else if length (nd_shape a) \<noteq> 2 then Inl Unmodelled
          else if list_ex (\<lambda>b. tl (nd_shape b) \<noteq> tl (nd_shape a)) rest then Inl ValueError
          else
            (case np_result_type (a # rest) of
               None \<Rightarrow> Inl Unmodelled
             | Some d \<Rightarrow>
                 (case mapE (np_astype d) (a # rest) of
                    Inl e \<Rightarrow> Inl e
                  | Inr cs \<Rightarrow>
                      Inr \<lparr>nd_dtype = d,
                           nd_shape = sum_list (map (\<lambda>b. hd (nd_shape b)) cs) # tl (nd_shape a),
                           nd_data = concat (map nd_data cs)\<rparr>)))"

text \<open>
  \<open>np.concatenate(arrs, axis=-1)\<close> for two-dimensional arrays: row \<open>i\<close> of the result
  is the rows \<open>i\<close> of the arguments, one after the other.
\<close>

definition np_concatenate_last :: "ndarray list \<Rightarrow> error + ndarray" where
  "np_concatenate_last arrs =
     (case arrs of
        [] \<Rightarrow> Inl ValueError
      | a # rest \<Rightarrow>
          if list_ex (\<lambda>b. length (nd_shape b) \<noteq> length (nd_shape a)) rest then Inl ValueError
          else if length (nd_shape a) = 0 then Inl ValueError
          else if length (nd_shape a) \<noteq> 2 then Inl Unmodelled
          else if list_ex (\<lambda>b. hd (nd_shape b) \<noteq> hd (nd_shape a)) rest then Inl ValueError
          else
            (case np_result_type arrs of
               None \<Rightarrow> Inl Unmodelled
             | Some d \<Rightarrow>
                 (case (mapE (np_astype d) arrs, np_itemsize d) of
                    (Inl e, _) \<Rightarrow> Inl e
                  | (Inr cs, None) \<Rightarrow> Inl Unmodelled
                  | (Inr cs, Some sz) \<Rightarrow>
                      Inr \<lparr>nd_dtype = d,
                           nd_shape = [hd (nd_shape a), sum_list (map (\<lambda>b. nd_shape b ! 1) cs)],
                           nd_data =
                             concat (map (\<lambda>i. concat (map (\<lambda>b.
                                 take (nd_shape b ! 1 * sz) (drop (i * (nd_shape b ! 1 * sz)) (nd_data b))) cs))
                               [0..<hd (nd_shape a)])\<rparr>)))"

section \<open>Native values of the backends\<close>

text \<open>
  A scipy sparse matrix is represented by its storage format and its coordinate view (the
  arrays \<open>row\<close>, \<open>col\<close> and \<open>data\<close> that \<open>tocoo()\<close> returns) together with its shape.
\<close>

record spmatrix =
  sp_format :: string
  sp_row :: ndarray
  sp_col :: ndarray
  sp_data :: ndarray
  sp_shape :: "nat \<times> nat"

definition tocoo :: "spmatrix \<Rightarrow> spmatrix" where
  "tocoo m = m\<lparr>sp_format := ''coo''\<rparr>"

text \<open>
  The conversion of a coordinate matrix to a compressed format sorts the entries (by row
  and then column for \<open>csr\<close>, by column and then row for \<open>csc\<close>), adds up the entries
  that share a position, and casts the data to a native dtype that scipy computes with.
  It is described where none of this changes anything: the entries are already in
  strictly increasing order and the data dtype is one of \<open>scipy_dtypes\<close>. Then the
  coordinate view is the same and only the format differs. \<open>tobsr\<close> goes through
  \<open>csr\<close> and then chooses a block size from the pattern of the entries; it is described
  for a matrix without entries only.
\<close>

definition scipy_dtypes :: "string list" where
  "scipy_dtypes =
     [''|b1'', ''|i1'', ''|u1'', ''<i2'', ''<i4'', ''<i8'', ''<u2'', ''<u4'', ''<u8'',
      ''<f4'', ''<f8'', ''<c8'', ''<c16'']"

fun strictly_sorted :: "(int \<times> int) list \<Rightarrow> bool" where
  "strictly_sorted (x # y # zs) =
     ((fst x < fst y \<or> (fst x = fst y \<and> snd x < snd y)) \<and> strictly_sorted (y # zs))"
| "strictly_sorted _ = True"

definition compressed :: "string \<Rightarrow> bool \<Rightarrow> spmatrix \<Rightarrow> error + spmatrix" where
  "compressed fmt by_column m =
     (case (np_to_ints (sp_row m), np_to_ints (sp_col m)) of
        (Some rs, Some cs) \<Rightarrow>
          if nd_dtype (sp_data m) \<in> set scipy_dtypes
               \<and> strictly_sorted (if by_column then zip cs rs else zip rs cs)
            then Inr (m\<lparr>sp_format := fmt\<rparr>)
          else Inl Unmodelled
      | _ \<Rightarrow> Inl Unmodelled)"

definition tocsr :: "spmatrix \<Rightarrow> error + spmatrix" where
  "tocsr m = compressed ''csr'' False m"

definition tocsc :: "spmatrix \<Rightarrow> error + spmatrix" where
  "tocsc m = compressed ''csc'' True m"

definition tobsr :: "spmatrix \<Rightarrow> error + spmatrix" where
  "tobsr m =
     (case tocsr m of
        Inl e \<Rightarrow> Inl e
      | Inr x \<Rightarrow> if nd_data (sp_data x) = [] then Inr (x\<lparr>sp_format := ''bsr''\<rparr>) else Inl Unmodelled)"

text \<open>References to wire records: the setter's argument may be the record it writes to.\<close>

type_synonym ref = nat
type_synonym store = "ref \<Rightarrow> NdArrayProto"

text \<open>
  The values the setter can be given and the getter can return. A dense tensor of
  tensorflow, torch or paddle is represented by the host array its \<open>numpy()\<close> yields; a
  sparse tensor by its indices, values and dense shape (for torch: of the coalesced tensor).
  \<open>Foreign\<close> is a value of any other class, given by the parts of its module path and its
  class name.
\<close>

datatype py_value =
    NumpyArray ndarray
  | TfTensor ndarray
  | TorchTensor ndarray
  | PaddleTensor ndarray
  | TfSparseTensor ndarray ndarray "nat list"
  | TorchSparseTensor ndarray ndarray "nat list"
  | ScipySparse spmatrix
  | JinaNdArray ref
  | JinaProto ref
  | Foreign "string list" string

text \<open>\<open>array.__class__.__module__.split('.')\<close> and \<open>array.__class__.__name__\<close>.\<close>

fun py_class :: "py_value \<Rightarrow> string list \<times> string" where
  "py_class (NumpyArray _) = ([''numpy''], ''ndarray'')"
| "py_class (TfTensor _) = ([''tensorflow'', ''python'', ''framework'', ''ops''], ''EagerTensor'')"
| "py_class (TorchTensor _) = ([''torch''], ''Tensor'')"
| "py_class (PaddleTensor _) = ([''paddle''], ''Tensor'')"
| "py_class (TfSparseTensor _ _ _) =
     ([''tensorflow'', ''python'', ''framework'', ''sparse_tensor''], ''SparseTensor'')"
| "py_class (TorchSparseTensor _ _ _) = ([''torch''], ''Tensor'')"
| "py_class (ScipySparse m) = ([''scipy'', ''sparse'', sp_format m], sp_format m @ ''_matrix'')"
| "py_class (JinaNdArray _) = ([''jina'', ''types'', ''ndarray''], ''NdArray'')"
| "py_class (JinaProto _) = ([''jina_pb2''], ''NdArrayProto'')"
| "py_class (Foreign tags name) = (tags, name)"

text \<open>\<open>array.is_sparse\<close> of a torch tensor.\<close>

fun torch_is_sparse :: "py_value \<Rightarrow> bool" where
  "torch_is_sparse (TorchSparseTensor _ _ _) = True"
| "torch_is_sparse _ = False"

text \<open>\<open>_get_array_type(array)\<close>.\<close>

definition get_array_type :: "py_value \<Rightarrow> error + (string \<times> bool)" where
  "get_array_type array =
     (let module_tags = fst (py_class array);
          class_name = snd (py_class array)
      in if ''numpy'' \<in> set module_tags then Inr (''numpy'', False)
         else if ''jina'' \<in> set module_tags \<and> class_name = ''NdArray'' then Inr (''jina'', False)
         else if ''jina_pb2'' \<in> set module_tags \<and> class_name = ''NdArrayProto''
           then Inr (''jina_proto'', False)
         else if ''tensorflow'' \<in> set module_tags \<and> class_name = ''SparseTensor''
           then Inr (''tensorflow'', True)
         else if ''tensorflow'' \<in> set module_tags
                 \<and> (class_name = ''Tensor'' \<or> class_name = ''EagerTensor'')
           then Inr (''tensorflow'', False)
         else if ''torch'' \<in> set module_tags \<and> class_name = ''Tensor''
           then Inr (''torch'', torch_is_sparse array)
         else if ''paddle'' \<in> set module_tags \<and> class_name = ''Tensor'' then Inr (''paddle'', False)
         else if ''scipy'' \<in> set module_tags \<and> ''sparse'' \<in> set module_tags then Inr (''scipy'', True)
         else Inl TypeError)"

text \<open>
  The conversions of the tensor libraries. \<open>tensorflow.convert_to_tensor\<close> keeps the
  bytes of an array of native byte order (an array of the other byte order is converted
  by value, which is not described). \<open>torch.from_numpy\<close> refuses an array that is not in
  native byte order and knows the dtypes of \<open>torch_dtypes\<close>; what it does with unsigned
  integers of 16, 32 and 64 bits depends on the version of torch and is not described.
  \<open>paddle.to_tensor\<close> is not described.
\<close>

definition torch_dtypes :: "string list" where
  "torch_dtypes =
     [''|b1'', ''|i1'', ''|u1'', ''<i2'', ''<i4'', ''<i8'',
      ''<f2'', ''<f4'', ''<f8'', ''<c8'', ''<c16'']"

definition convert_to_tensor :: "ndarray option \<Rightarrow> error + py_value" where
  "convert_to_tensor x =
     (case x of
        None \<Rightarrow> Inl ValueError
      | Some a \<Rightarrow>
          if np_itemsize (nd_dtype a) = None \<or> take 1 (nd_dtype a) = ''>'' then Inl Unmodelled
          else Inr (TfTensor a))"

definition from_numpy :: "ndarray option \<Rightarrow> error + py_value" where
  "from_numpy x =
     (case x of
        None \<Rightarrow> Inl TypeError
      | Some a \<Rightarrow>
          if take 1 (nd_dtype a) = ''>'' then Inl ValueError
          else if nd_dtype a \<in> set torch_dtypes then Inr (TorchTensor a)
          else Inl Unmodelled)"

definition to_tensor :: "ndarray option \<Rightarrow> error + py_value" where
  "to_tensor x = Inl Unmodelled"

text \<open>\<open>_to_framework_array(x, framework)\<close>; \<open>x\<close> is \<open>None\<close> when the decoder returned nothing.\<close>

definition to_framework_array :: "ndarray option \<Rightarrow> string \<Rightarrow> error + py_value option" where
  "to_framework_array x framework =
     (if framework = ''numpy'' then Inr (map_option NumpyArray x)
      else if framework = ''tensorflow'' then
        (case convert_to_tensor x of Inl e \<Rightarrow> Inl e | Inr t \<Rightarrow> Inr (Some t))
      else if framework = ''torch'' then
        (case from_numpy x of Inl e \<Rightarrow> Inl e | Inr t \<Rightarrow> Inr (Some t))
      else if framework = ''paddle'' then
        (case to_tensor x of Inl e \<Rightarrow> Inl e | Inr t \<Rightarrow> Inr (Some t))
      else Inr None)"

section \<open>Constructors of the sparse libraries\<close>

text \<open>scipy's \<open>get_index_dtype(maxval=...)\<close>: int32 unless the bound needs int64.\<close>

definition get_index_dtype :: "nat \<Rightarrow> string" where
  "get_index_dtype maxval = (if int maxval \<le> 2147483647 then ''<i4'' else ''<i8'')"

text \<open>A cast between integer dtypes keeps the low bytes: the value wraps around.\<close>

definition wrap_int :: "nat \<Rightarrow> int \<Rightarrow> int" where
  "wrap_int sz x = (x + 2 ^ (8 * sz - 1)) mod 2 ^ (8 * sz) - 2 ^ (8 * sz - 1)"

text \<open>
  \<open>coo_matrix((data, (row, col)), shape=shp)\<close> with the coordinates given as
  integers. scipy casts the coordinates to the index dtype of the shape, then checks
  that the three arrays are one-dimensional of one length and that every coordinate is
  inside the shape. Versions of scipy differ on a coordinate that the index dtype cannot
  hold (the cast wraps it around, or a wider dtype is chosen), on data that is not
  one-dimensional at all, and on data whose dtype is not one of \<open>scipy_dtypes\<close>; these
  cases are not described.
\<close>

definition coo_matrix :: "ndarray \<Rightarrow> int list \<Rightarrow> int list \<Rightarrow> nat list \<Rightarrow> error + spmatrix" where
  "coo_matrix data rs cs shp =
     (case shp of
        [M, N] \<Rightarrow>
          (let idx_dtype = get_index_dtype (max M N);
               sz = (if idx_dtype = ''<i4'' then 4 else 8);
               rs' = map (wrap_int sz) rs;
               cs' = map (wrap_int sz) cs
           in if rs' \<noteq> rs \<or> cs' \<noteq> cs \<or> nd_shape data = []
                   \<or> nd_dtype data \<notin> set scipy_dtypes
                then Inl Unmodelled
              else if nd_shape data \<noteq> [length rs'] \<or> length cs' \<noteq> length rs' then Inl ValueError
              else if list_ex (\<lambda>r. int M \<le> r \<or> r < 0) rs' \<or> list_ex (\<lambda>c. int N \<le> c \<or> c < 0) cs'
                then Inl ValueError
              else
                (case (np_of_ints idx_dtype rs', np_of_ints idx_dtype cs') of
                   (Inr row, Inr col) \<Rightarrow>
                     Inr \<lparr>sp_format = ''coo'', sp_row = row, sp_col = col, sp_data = data,
                          sp_shape = (M, N)\<rparr>
                 | _ \<Rightarrow> Inl Unmodelled))
      | _ \<Rightarrow> Inl ValueError)"

text \<open>
  \<open>coo_matrix((val, ij), shape=shp)\<close> with \<open>ij\<close> an array of at least one axis:
  scipy unpacks it into its two rows (anything else is
  \<open>TypeError('invalid input format')\<close>). An \<open>ij\<close> without axes, an empty \<open>shp\<close>
  and rows without axes are treated differently by different versions of scipy and are
  not described.
\<close>

definition coo_matrix_ij :: "ndarray option \<Rightarrow> ndarray \<Rightarrow> nat list \<Rightarrow> error + spmatrix" where
  "coo_matrix_ij val ij shp =
     (case nd_shape ij of
        [] \<Rightarrow> Inl Unmodelled
      | n # rest \<Rightarrow>
          if n \<noteq> 2 then Inl TypeError
          else if shp = [] then Inl Unmodelled
          else if length shp \<noteq> 2 then Inl ValueError
          else
            (case val of
               None \<Rightarrow> Inl Unmodelled
             | Some data \<Rightarrow>
                 if rest = [] then Inl Unmodelled
                 else if length rest \<noteq> 1 then Inl ValueError
                 else
                   (case (np_getitem ij 0, np_getitem ij 1) of
                      (Inr row, Inr col) \<Rightarrow>
                        (case (np_to_ints row, np_to_ints col) of
                           (Some rs, Some cs) \<Rightarrow> coo_matrix data rs cs shp
                         | _ \<Rightarrow> Inl Unmodelled)
                    | _ \<Rightarrow> Inl Unmodelled)))"

text \<open>\<open>csr_matrix((data, (row, col)), shape=shp)\<close>: the coordinate matrix, converted.\<close>

definition csr_matrix :: "ndarray \<Rightarrow> int list \<Rightarrow> int list \<Rightarrow> nat list \<Rightarrow> error + spmatrix" where
  "csr_matrix data rs cs shp =
     (case coo_matrix data rs cs shp of Inl e \<Rightarrow> Inl e | Inr x \<Rightarrow> tocsr x)"

text \<open>
  \<open>tensorflow.SparseTensor(idx, val, shape)\<close>: indices of rank 2, values of rank 1, one
  index row per value and one index column per dimension.
\<close>

definition SparseTensor :: "ndarray option \<Rightarrow> ndarray option \<Rightarrow> nat list \<Rightarrow> error + py_value" where
  "SparseTensor idx val shp =
     (case (idx, val) of
        (Some i, Some v) \<Rightarrow>
          if nd_dtype i \<noteq> ''<i8'' \<or> np_itemsize (nd_dtype v) = None \<or> take 1 (nd_dtype v) = ''>''
            then Inl Unmodelled
          else if length (nd_shape i) \<noteq> 2 \<or> length (nd_shape v) \<noteq> 1
                  \<or> hd (nd_shape i) \<noteq> hd (nd_shape v) \<or> nd_shape i ! 1 \<noteq> length shp
            then Inl ValueError
          else Inr (TfSparseTensor i v shp)
      | _ \<Rightarrow> Inl Unmodelled)"

text \<open>
  \<open>torch.sparse_coo_tensor(idx, val, shape)\<close>: indices of shape \<open>[sparse_dim, nnz]\<close>,
  cast to int64, values of shape \<open>[nnz, ...]\<close>, every index inside the shape. The
  tensor is represented by the indices and values of its coalesced form; these are the
  ones given when the index columns are in strictly increasing order, and the
  constructor is described for this case only, with signed integer indices and values
  of a dtype in \<open>torch_dtypes\<close>.
\<close>

fun lex_less :: "int list \<Rightarrow> int list \<Rightarrow> bool" where
  "lex_less (x # xs) (y # ys) = (x < y \<or> (x = y \<and> lex_less xs ys))"
| "lex_less _ _ = False"

fun strictly_increasing :: "int list list \<Rightarrow> bool" where
  "strictly_increasing (x # y # zs) = (lex_less x y \<and> strictly_increasing (y # zs))"
| "strictly_increasing _ = True"

definition sparse_coo_tensor :: "ndarray option \<Rightarrow> ndarray option \<Rightarrow> nat list \<Rightarrow> error + py_value" where
  "sparse_coo_tensor idx val shp =
     (case (idx, val) of
        (Some i, Some v) \<Rightarrow>
          if nd_dtype i \<notin> {''|i1'', ''<i2'', ''<i4'', ''<i8''} \<or> nd_dtype v \<notin> set torch_dtypes
            then Inl Unmodelled
          else
            (case (nd_shape i, nd_shape v) of
               ([sd, nnz], n # dense_dims) \<Rightarrow>
                 if n \<noteq> nnz \<or> length shp \<noteq> sd + length dense_dims \<or> drop sd shp \<noteq> dense_dims
                   then Inl RuntimeError
                 else
                   (case (np_to_ints i, np_astype ''<i8'' i) of
                      (Some xs, Inr i64) \<Rightarrow>
                        if nnz = 0 then Inr (TorchSparseTensor i64 v shp)
                        else if \<not> list_all2 (\<lambda>row dim. list_all (\<lambda>x. 0 \<le> x \<and> x < int dim) row)
                                    (chunks nnz xs) (take sd shp)
                          then Inl RuntimeError
                        else if sd = 0 \<or> \<not> strictly_increasing (transpose (chunks nnz xs))
                          then Inl Unmodelled
                        else Inr (TorchSparseTensor i64 v shp)
                    | _ \<Rightarrow> Inl Unmodelled)
             | _ \<Rightarrow> Inl RuntimeError)
      | _ \<Rightarrow> Inl Unmodelled)"

section \<open>The class \<open>NdArray\<close>\<close>

text \<open>
  Reading a message field that is not the populated arm of the \<open>oneof\<close> yields the
  default (empty) message.
\<close>

definition default_dense :: DenseNdArrayProto where
  "default_dense = \<lparr>buffer = [], shape = [], dtype = []\<rparr>"

definition default_sparse :: SparseNdArrayProto where
  "default_sparse = \<lparr>indices = default_dense, sparse_values = default_dense, sparse_shape = []\<rparr>"

definition dense_of :: "NdArrayProto \<Rightarrow> DenseNdArrayProto" where
  "dense_of pb = (case content pb of Dense d \<Rightarrow> d | _ \<Rightarrow> default_dense)"

definition sparse_of :: "NdArrayProto \<Rightarrow> SparseNdArrayProto" where
  "sparse_of pb = (case content pb of Sparse s \<Rightarrow> s | _ \<Rightarrow> default_sparse)"

text \<open>\<open>NdArray.is_sparse\<close>: \<open>WhichOneof('content') == 'sparse'\<close>.\<close>

definition is_sparse :: "NdArrayProto \<Rightarrow> bool" where
  "is_sparse pb = (case content pb of Sparse _ \<Rightarrow> True | _ \<Rightarrow> False)"

text \<open>\<open>NdArray._get_raw_sparse_array\<close>.\<close>

definition get_raw_sparse_array ::
  "NdArrayProto \<Rightarrow> error + (ndarray option \<times> ndarray option \<times> nat list)" where
  "get_raw_sparse_array pb =
     (case get_dense_array (indices (sparse_of pb)) of
        Inl e \<Rightarrow> Inl e
      | Inr idx \<Rightarrow>
          (case get_dense_array (sparse_values (sparse_of pb)) of
             Inl e \<Rightarrow> Inl e
           | Inr val \<Rightarrow> Inr (idx, val, sparse_shape (sparse_of pb))))"

text \<open>
  The first statements of the scipy branch of the getter:
  \<open>idx, val, shape = self._get_raw_sparse_array()\<close> and
  \<open>x = coo_matrix((val, idx.T), shape=shape)\<close>. \<open>idx.T\<close> raises when \<open>idx\<close> is \<open>None\<close>.
\<close>

definition get_coo_matrix :: "NdArrayProto \<Rightarrow> error + spmatrix" where
  "get_coo_matrix pb =
     (case get_raw_sparse_array pb of
        Inl e \<Rightarrow> Inl e
      | Inr (idx, val, shp) \<Rightarrow>
          (case idx of
             None \<Rightarrow> Inl AttributeError
           | Some i \<Rightarrow>
               (case np_T i of
                  Inl e \<Rightarrow> Inl e
                | Inr iT \<Rightarrow> coo_matrix_ij val iT shp)))"

text \<open>
  The getter of \<open>NdArray.value\<close>. \<open>Inr None\<close> is Python's \<open>None\<close>: the function ends
  without reaching a \<open>return\<close>. Reading a key that \<open>parameters\<close> does not hold raises.
\<close>

definition value_getter :: "NdArrayProto \<Rightarrow> error + py_value option" where
  "value_getter pb =
     (let framework = cls_name pb
      in if is_sparse pb then
           (if framework = ''scipy'' then
              (case get_coo_matrix pb of
                 Inl e \<Rightarrow> Inl e
               | Inr x \<Rightarrow>
                   (case map_of (parameters pb) ''sparse_format'' of
                      None \<Rightarrow> Inl ValueError
                    | Some fmt \<Rightarrow>
                        if fmt = ''bsr'' then
                          (case tobsr x of Inl e \<Rightarrow> Inl e | Inr y \<Rightarrow> Inr (Some (ScipySparse y)))
                        else if fmt = ''csc'' then
                          (case tocsc x of Inl e \<Rightarrow> Inl e | Inr y \<Rightarrow> Inr (Some (ScipySparse y)))
                        else if fmt = ''csr'' then
                          (case tocsr x of Inl e \<Rightarrow> Inl e | Inr y \<Rightarrow> Inr (Some (ScipySparse y)))
                        else if fmt = ''coo'' then Inr (Some (ScipySparse x))
                        else Inr None))
            else if framework = ''tensorflow'' then
              (case get_raw_sparse_array pb of
                 Inl e \<Rightarrow> Inl e
               | Inr (idx, val, shp) \<Rightarrow>
                   (case SparseTensor idx val shp of Inl e \<Rightarrow> Inl e | Inr t \<Rightarrow> Inr (Some t)))
            else if framework = ''torch'' then
              (case get_raw_sparse_array pb of
                 Inl e \<Rightarrow> Inl e
               | Inr (idx, val, shp) \<Rightarrow>
                   (case sparse_coo_tensor idx val shp of Inl e \<Rightarrow> Inl e | Inr t \<Rightarrow> Inr (Some t)))
            else Inr None)
         else if framework \<in> {''numpy'', ''torch'', ''paddle'', ''tensorflow''} then
           (case get_dense_array (dense_of pb) of
              Inl e \<Rightarrow> Inl e
            | Inr x \<Rightarrow> to_framework_array x framework)
         else Inr None)"

text \<open>
  \<open>NdArray._set_scipy_sparse\<close>, \<open>_set_tf_sparse\<close> and \<open>_set_torch_sparse\<close>. Writing
  into \<open>self._pb_body.sparse\<close> makes \<open>sparse\<close> the populated arm of the \<open>oneof\<close>.
\<close>

definition set_scipy_sparse :: "NdArrayProto \<Rightarrow> spmatrix \<Rightarrow> error + NdArrayProto" where
  "set_scipy_sparse pb m =
     (let v = tocoo m
      in case np_stack_axis1 (sp_row v) (sp_col v) of
           Inl e \<Rightarrow> Inl e
         | Inr idx \<Rightarrow>
             (let s0 = sparse_of pb;
                  s1 = s0\<lparr>indices := set_dense_array idx (indices s0)\<rparr>;
                  s2 = s1\<lparr>sparse_values := set_dense_array (sp_data v) (sparse_values s1)\<rparr>;
                  s3 = s2\<lparr>sparse_shape := [fst (sp_shape v), snd (sp_shape v)]\<rparr>
              in Inr (pb\<lparr>content := Sparse s3, cls_name := ''scipy''\<rparr>)))"

definition set_tf_sparse :: "NdArrayProto \<Rightarrow> ndarray \<Rightarrow> ndarray \<Rightarrow> nat list \<Rightarrow> NdArrayProto" where
  "set_tf_sparse pb idx vals shp =
     (let s0 = sparse_of pb;
          s1 = s0\<lparr>indices := set_dense_array idx (indices s0)\<rparr>;
          s2 = s1\<lparr>sparse_values := set_dense_array vals (sparse_values s1)\<rparr>;
          s3 = s2\<lparr>sparse_shape := shp\<rparr>
      in pb\<lparr>content := Sparse s3, cls_name := ''tensorflow''\<rparr>)"

definition set_torch_sparse :: "NdArrayProto \<Rightarrow> ndarray \<Rightarrow> ndarray \<Rightarrow> nat list \<Rightarrow> NdArrayProto" where
  "set_torch_sparse pb idx vals shp =
     (let s0 = sparse_of pb;
          s1 = s0\<lparr>indices := set_dense_array idx (indices s0)\<rparr>;
          s2 = s1\<lparr>sparse_values := set_dense_array vals (sparse_values s1)\<rparr>;
          s3 = s2\<lparr>sparse_shape := shp\<rparr>
      in pb\<lparr>content := Sparse s3, cls_name := ''torch''\<rparr>)"

text \<open>
  The dense branches of the setter: \<open>cls_name\<close> is written, then \<open>_set_dense_array\<close>
  fills \<open>self._pb_body.dense\<close>, which becomes the populated arm.
\<close>

definition set_dense :: "NdArrayProto \<Rightarrow> string \<Rightarrow> ndarray \<Rightarrow> NdArrayProto" where
  "set_dense pb framework a =
     (let pb1 = pb\<lparr>cls_name := framework\<rparr>
      in pb1\<lparr>content := Dense (set_dense_array a (dense_of pb1))\<rparr>)"

text \<open>\<open>self.CopyFrom(other)\<close> of protobuf: nothing happens when \<open>other\<close> is \<open>self\<close>.\<close>

definition CopyFrom :: "store \<Rightarrow> ref \<Rightarrow> ref \<Rightarrow> store" where
  "CopyFrom h self other = (if other = self then h else h(self := h other))"

text \<open>
  The setter of \<open>NdArray.value\<close>; \<open>self\<close> refers to \<open>self._pb_body\<close>. The branches of
  the source that test \<open>framework\<close> one after the other exclude each other, so they are
  written as one chain. A \<open>Foreign\<close> value that passes for a backend has none of the
  backend's methods described.
\<close>

definition value_setter :: "store \<Rightarrow> ref \<Rightarrow> py_value \<Rightarrow> error + store" where
  "value_setter h self v =
     (case get_array_type v of
        Inl e \<Rightarrow> Inl e
      | Inr (framework, sparse) \<Rightarrow>
          if framework = ''jina'' then
            (case v of
               JinaNdArray src \<Rightarrow> Inr (CopyFrom (h(self := (h self)\<lparr>cls_name := ''numpy''\<rparr>)) self src)
             | _ \<Rightarrow> Inl Unmodelled)
          else if framework = ''jina_proto'' then
            (case v of
               JinaProto src \<Rightarrow> Inr (CopyFrom (h(self := (h self)\<lparr>cls_name := ''numpy''\<rparr>)) self src)
             | _ \<Rightarrow> Inl Unmodelled)
          else if sparse then
            (if framework = ''scipy'' then
               (case v of
                  ScipySparse m \<Rightarrow>
                    (case set_scipy_sparse
                            ((h self)\<lparr>parameters :=
                               AList.update ''sparse_format'' (sp_format m) (parameters (h self))\<rparr>) m of
                       Inl e \<Rightarrow> Inl e
                     | Inr pb \<Rightarrow> Inr (h(self := pb)))
                | _ \<Rightarrow> Inl Unmodelled)
             else if framework = ''tensorflow'' then
               (case v of
                  TfSparseTensor idx vals shp \<Rightarrow> Inr (h(self := set_tf_sparse (h self) idx vals shp))
                | _ \<Rightarrow> Inl Unmodelled)
             else if framework = ''torch'' then
               (case v of
                  TorchSparseTensor idx vals shp \<Rightarrow> Inr (h(self := set_torch_sparse (h self) idx vals shp))
                | _ \<Rightarrow> Inl Unmodelled)
             else Inr h)
          else
            (if framework = ''numpy'' then
               (case v of
                  NumpyArray a \<Rightarrow> Inr (h(self := set_dense (h self) ''numpy'' a))
                | _ \<Rightarrow> Inl Unmodelled)
             else if framework = ''tensorflow'' then
               (case v of
                  TfTensor a \<Rightarrow> Inr (h(self := set_dense (h self) ''tensorflow'' a))
                | _ \<Rightarrow> Inl Unmodelled)
             else if framework = ''torch'' then
               (case v of
                  TorchTensor a \<Rightarrow> Inr (h(self := set_dense (h self) ''torch'' a))
                | _ \<Rightarrow> Inl Unmodelled)
             else if framework = ''paddle'' then
               (case v of
                  PaddleTensor a \<Rightarrow> Inr (h(self := set_dense (h self) ''paddle'' a))
                | _ \<Rightarrow> Inl Unmodelled)
             else Inr h))"

section \<open>\<open>NdArray.unravel\<close>\<close>

text \<open>
  The loop of the scipy branch: the index and value buffers are appended, and record
  \<open>k\<close> contributes \<open>values.shape[0]\<close> copies of \<open>k\<close> to \<open>row_indices\<close>.
\<close>

fun scipy_loop ::
  "nat \<Rightarrow> NdArrayProto list \<Rightarrow> bytes \<times> bytes \<times> int list \<Rightarrow> error + (bytes \<times> bytes \<times> int list)" where
  "scipy_loop k [] acc = Inr acc"
| "scipy_loop k (pb_body_k # rest) (indices_bytes, values_bytes, row_indices) =
     (case shape (sparse_values (sparse_of pb_body_k)) of
        [] \<Rightarrow> Inl IndexError
      | n # _ \<Rightarrow>
          scipy_loop (k + 1) rest
            (indices_bytes @ buffer (indices (sparse_of pb_body_k)),
             values_bytes @ buffer (sparse_values (sparse_of pb_body_k)),
             row_indices @ replicate n (int k)))"

text \<open>The loop of the torch branch: the list \<open>all_ds\<close>.\<close>

fun torch_loop :: "nat \<Rightarrow> NdArrayProto list \<Rightarrow> error + ndarray list" where
  "torch_loop j [] = Inr []"
| "torch_loop j (p # rest) =
     (case get_dense_array (indices (sparse_of p)) of
        Inl e \<Rightarrow> Inl e
      | Inr None \<Rightarrow> Inl AttributeError
      | Inr (Some d) \<Rightarrow>
          if nd_shape d = [] then Inl IndexError
          else
            (case np_of_ints ''<i4'' (replicate (last (nd_shape d)) (int j)) of
               Inl e \<Rightarrow> Inl e
             | Inr idx0 \<Rightarrow>
                 (case np_reshape idx0 [1, -1] of
                    Inl e \<Rightarrow> Inl e
                  | Inr idx1 \<Rightarrow>
                      (case np_vstack [idx1, d] of
                         Inl e \<Rightarrow> Inl e
                       | Inr d' \<Rightarrow>
                           (case torch_loop (j + 1) rest of
                              Inl e \<Rightarrow> Inl e
                            | Inr ds \<Rightarrow> Inr (d' # ds))))))"

text \<open>
  \<open>NdArray.unravel(protos)\<close>. \<open>next(iter(protos))\<close> raises \<open>StopIteration\<close> on an
  empty sequence; \<open>first.sparse\<close> and \<open>first.proto.sparse\<close> both read the wrapped
  message (the mixin \<open>ProtoTypeMixin\<close> forwards attributes to it).
\<close>

definition unravel :: "NdArrayProto list \<Rightarrow> error + py_value option" where
  "unravel protos =
     (case protos of
        [] \<Rightarrow> Inl StopIteration
      | first # _ \<Rightarrow>
          (let framework = cls_name first
           in if is_sparse first then
                (if framework = ''tensorflow'' then Inl NotImplementedError
                 else if framework = ''scipy'' then
                   (let n_examples = length protos
                    in if length (sparse_shape (sparse_of first)) < 2 then Inl IndexError
                       else
                         (let n_features = sparse_shape (sparse_of first) ! 1;
                              indices_dtype = dtype (indices (sparse_of first));
                              values_dtype = dtype (sparse_values (sparse_of first))
                          in case scipy_loop 0 protos ([], [], []) of
                               Inl e \<Rightarrow> Inl e
                             | Inr (indices_bytes, values_bytes, row_indices) \<Rightarrow>
                                 if dtype (sparse_values (sparse_of first)) \<noteq> [] then
                                   (case np_frombuffer indices_bytes indices_dtype of
                                      Inl e \<Rightarrow> Inl e
                                    | Inr indices_np \<Rightarrow>
                                        (case np_reshape indices_np [2, -1] of
                                           Inl e \<Rightarrow> Inl e
                                         | Inr pairs \<Rightarrow>
                                             (case np_getitem pairs 1 of
                                                Inl e \<Rightarrow> Inl e
                                              | Inr cols_np \<Rightarrow>
                                                  (case np_frombuffer values_bytes values_dtype of
                                                     Inl e \<Rightarrow> Inl e
                                                   | Inr vals_np \<Rightarrow>
                                                       (case np_to_ints cols_np of
                                                          None \<Rightarrow> Inl Unmodelled
                                                        | Some cols \<Rightarrow>
                                                            (case csr_matrix vals_np row_indices cols
                                                                    [n_examples, n_features] of
                                                               Inl e \<Rightarrow> Inl e
                                                             | Inr x \<Rightarrow> Inr (Some (ScipySparse x))))))))
                                 else Inr None))
                 else if framework = ''torch'' then
                   (case torch_loop 0 protos of
                      Inl e \<Rightarrow> Inl e
                    | Inr all_ds \<Rightarrow>
                        (case unravel_dense_array (map (\<lambda>d. buffer (sparse_values (sparse_of d))) protos)
                                [] (dtype (sparse_values (sparse_of first))) of
                           Inl e \<Rightarrow> Inl e
                         | Inr val \<Rightarrow>
                             (case np_concatenate_last all_ds of
                                Inl e \<Rightarrow> Inl e
                              | Inr idx \<Rightarrow>
                                  (case sparse_coo_tensor (Some idx) (Some val)
                                          (length protos # sparse_shape (sparse_of first)) of
                                     Inl e \<Rightarrow> Inl e
                                   | Inr t \<Rightarrow> Inr (Some t)))))
                 else Inr None)
              else if framework \<in> {''numpy'', ''torch'', ''paddle'', ''tensorflow''} then
                (case unravel_dense_array (map (\<lambda>d. buffer (dense_of d)) protos)
                        (shape (dense_of first)) (dtype (dense_of first)) of
                   Inl e \<Rightarrow> Inl e
                 | Inr x \<Rightarrow> to_framework_array (Some x) framework)
              else Inr None))"

section \<open>Notions used in the statements\<close>

text \<open>Setting the value of the record at \<open>self\<close> and reading it back.\<close>

definition set_then_get :: "store \<Rightarrow> ref \<Rightarrow> py_value \<Rightarrow> error + py_value option" where
  "set_then_get h self v =
     (case value_setter h self v of Inl e \<Rightarrow> Inl e | Inr h' \<Rightarrow> value_getter (h' self))"




text \<open>
  What the libraries guarantee of a native sparse value with \<open>nnz\<close> stored entries.
  scipy: the coordinate view has three one-dimensional arrays of length \<open>nnz\<close>, the two
  index arrays of one integer dtype. tensorflow: \<open>indices\<close> has shape
  \<open>[nnz, ndim]\<close> and \<open>values\<close> shape \<open>[nnz]\<close>. torch (coalesced): \<open>indices()\<close> has
  shape \<open>[sparse_dim, nnz]\<close> and \<open>values()\<close> shape \<open>[nnz, ...]\<close> with the dense
  dimensions that follow the sparse ones.
\<close>

definition scipy_formats :: "string list" where
  "scipy_formats = [''bsr'', ''coo'', ''csc'', ''csr'', ''dia'', ''dok'', ''lil'']"

definition scipy_value :: "spmatrix \<Rightarrow> nat \<Rightarrow> bool" where
  "scipy_value m nnz =
     (sp_format m \<in> set scipy_formats
      \<and> wf_ndarray (sp_row m) \<and> wf_ndarray (sp_col m) \<and> wf_ndarray (sp_data m)
      \<and> nd_shape (sp_row m) = [nnz] \<and> nd_shape (sp_col m) = [nnz] \<and> nd_shape (sp_data m) = [nnz]
      \<and> nd_dtype (sp_col m) = nd_dtype (sp_row m))"

definition tf_value :: "ndarray \<Rightarrow> ndarray \<Rightarrow> nat list \<Rightarrow> nat \<Rightarrow> bool" where
  "tf_value idx vals shp nnz = (nd_shape idx = [nnz, length shp] \<and> nd_shape vals = [nnz])"

definition torch_value :: "ndarray \<Rightarrow> ndarray \<Rightarrow> nat list \<Rightarrow> nat \<Rightarrow> nat \<Rightarrow> bool" where
  "torch_value idx vals shp sparse_dim nnz =
     (sparse_dim \<le> length shp \<and> nd_shape idx = [sparse_dim, nnz]
      \<and> nd_shape vals = nnz # drop sparse_dim shp)"

text \<open>The array that a stored element buffer describes, read without any check.\<close>

definition as_array :: "DenseNdArrayProto \<Rightarrow> ndarray" where
  "as_array x = \<lparr>nd_dtype = dtype x, nd_shape = shape x, nd_data = buffer x\<rparr>"

section \<open>Properties of the dense decoder\<close>

lemma np_itemsize_pos:
  assumes "np_itemsize d = Some sz"
  shows "0 < sz"
proof -
  from assms have "(d, sz) \<in> set np_dtypes"
    unfolding np_itemsize_def by (rule map_of_SomeD)
  then show ?thesis
    unfolding np_dtypes_def by auto
qed

text \<open>
  Claim C6. An element buffer with an empty \<open>buffer\<close> and shape \<open>[3, 4]\<close> decodes,
  whatever its dtype, to a zero-filled array of shape \<open>[3, 4]\<close> (96 zero bytes of
  float64), and no error is raised; the getter of a numpy record holding it returns
  that array.
\<close>

theorem empty_buffer_decodes_to_zeros:
  "get_dense_array \<lparr>buffer = [], shape = [3, 4], dtype = d\<rparr>
     = Inr (Some \<lparr>nd_dtype = ''<f8'', nd_shape = [3, 4], nd_data = replicate 96 0\<rparr>)
   \<and> np_zeros [3, 4] = Inr \<lparr>nd_dtype = ''<f8'', nd_shape = [3, 4], nd_data = replicate 96 0\<rparr>
   \<and> value_getter \<lparr>content = Dense \<lparr>buffer = [], shape = [3, 4], dtype = d\<rparr>,
                     cls_name = ''numpy'', parameters = ps\<rparr>
       = Inr (Some (NumpyArray
           \<lparr>nd_dtype = ''<f8'', nd_shape = [3, 4], nd_data = replicate 96 0\<rparr>))"
  by (simp add: get_dense_array_def np_zeros_def NPY_MAXDIMS_def NPY_MAX_INTP_def
      value_getter_def is_sparse_def dense_of_def to_framework_array_def)

theorem empty_buffer_decodes_to_zeros_witness:
  "get_dense_array \<lparr>buffer = [], shape = [3, 4], dtype = ''<i2''\<rparr>
     = Inr (Some \<lparr>nd_dtype = ''<f8'', nd_shape = [3, 4], nd_data = replicate 96 0\<rparr>)"
  using empty_buffer_decodes_to_zeros [of "''<i2''" "[]"]
  by simp

lemma filter_nonzero_shape:
  assumes "prod_list S \<noteq> (0 :: nat)"
  shows "filter (\<lambda>n. n \<noteq> 0) S = S"
  using assms by (induction S) auto

lemma takeWhile_nonzero_shape:
  assumes "prod_list S \<noteq> (0 :: nat)"
  shows "takeWhile (\<lambda>n. n \<noteq> 0) S = S" and "takeWhile ((<) 0) S = S"
  using assms by (induction S) auto

text \<open>
  Claim C5, as the code has it. The claim expects a mismatch error when the buffer is
  empty and the product of the shape is not zero. The decoder has no such error: the
  empty shape (whose product is 1) yields \<open>None\<close>, and a non-empty shape yields what
  \<open>np.zeros(shape)\<close> yields, which is the zero-filled float64 array of that shape
  whenever the shape has at most 32 axes and its 8-byte items fit a signed 64-bit size,
  and the \<open>ValueError\<close> of numpy otherwise.
\<close>

theorem empty_buffer_decodes_as_np_zeros:
  assumes "buffer src = []" and "prod_list (shape src) \<noteq> 0"
  shows "get_dense_array src =
           (if shape src = [] then Inr None
            else if length (shape src) \<le> NPY_MAXDIMS
                    \<and> 8 * int (prod_list (shape src)) \<le> NPY_MAX_INTP
              then Inr (Some \<lparr>nd_dtype = ''<f8'', nd_shape = shape src,
                               nd_data = replicate (8 * prod_list (shape src)) 0\<rparr>)
            else Inl ValueError)"
  using assms filter_nonzero_shape [of "shape src"]
  by (auto simp: get_dense_array_def np_zeros_def)

theorem empty_buffer_decodes_as_np_zeros_witness:
  "get_dense_array \<lparr>buffer = [], shape = [3, 4], dtype = ''<f4''\<rparr>
     = Inr (Some \<lparr>nd_dtype = ''<f8'', nd_shape = [3, 4], nd_data = replicate 96 0\<rparr>)
   \<and> get_dense_array \<lparr>buffer = [], shape = [], dtype = ''<f4''\<rparr> = Inr None
   \<and> get_dense_array \<lparr>buffer = [], shape = replicate 33 1, dtype = ''<f4''\<rparr> = Inl ValueError
   \<and> get_dense_array \<lparr>buffer = [], shape = [4294967295, 4294967295], dtype = ''<f4''\<rparr>
       = Inl ValueError"
  using empty_buffer_decodes_as_np_zeros [of "\<lparr>buffer = [], shape = [3, 4], dtype = ''<f4''\<rparr>"]
    empty_buffer_decodes_as_np_zeros [of "\<lparr>buffer = [], shape = [], dtype = ''<f4''\<rparr>"]
    empty_buffer_decodes_as_np_zeros
      [of "\<lparr>buffer = [], shape = replicate 33 1, dtype = ''<f4''\<rparr>"]
    empty_buffer_decodes_as_np_zeros
      [of "\<lparr>buffer = [], shape = [4294967295, 4294967295], dtype = ''<f4''\<rparr>"]
  by (simp add: NPY_MAXDIMS_def NPY_MAX_INTP_def)

text \<open>
  Claim C5 as stated fails: shape \<open>[3, 4]\<close> has product 12, the buffer is empty, and
  the decoder returns an array instead of failing.
\<close>

theorem empty_buffer_mismatch_counterexample:
  "prod_list [3, 4] \<noteq> (0 :: nat)
   \<and> get_dense_array \<lparr>buffer = [], shape = [3, 4], dtype = ''<f4''\<rparr>
       = Inr (Some \<lparr>nd_dtype = ''<f8'', nd_shape = [3, 4], nd_data = replicate 96 0\<rparr>)"
  by (simp add: get_dense_array_def np_zeros_def NPY_MAXDIMS_def NPY_MAX_INTP_def)

section \<open>Properties of the getter, the setter and \<open>unravel\<close>\<close>

text \<open>
  Claim C9. \<open>unravel\<close> on a non-empty sequence whose records are sparse with backend
  tag \<open>tensorflow\<close> raises \<open>NotImplementedError\<close>; no record is decoded. The first
  record alone decides it.
\<close>

theorem unravel_sparse_tensorflow_not_implemented:
  assumes "is_sparse first" and "cls_name first = ''tensorflow''"
  shows "unravel (first # rest) = Inl NotImplementedError"
  using assms by (simp add: unravel_def)

theorem unravel_sparse_tensorflow_not_implemented_witness:
  "unravel
     [\<lparr>content = Sparse
          \<lparr>indices = \<lparr>buffer = [0, 0, 0, 0, 0, 0, 0, 0, 1, 0, 0, 0, 0, 0, 0, 0],
                       shape = [1, 2], dtype = ''<i8''\<rparr>,
           sparse_values = \<lparr>buffer = [0, 0, 160, 64], shape = [1], dtype = ''<f4''\<rparr>,
           sparse_shape = [2, 2]\<rparr>,
       cls_name = ''tensorflow'', parameters = []\<rparr>]
   = Inl NotImplementedError"
  by (rule unravel_sparse_tensorflow_not_implemented) (simp_all add: is_sparse_def)

text \<open>
  Claim C10. When the sparse arm is populated and the backend tag is none of
  \<open>scipy\<close>, \<open>tensorflow\<close>, \<open>torch\<close>, the getter returns \<open>None\<close> and raises nothing.
\<close>

theorem getter_sparse_unknown_backend_none:
  assumes "is_sparse pb" and "cls_name pb \<notin> {''scipy'', ''tensorflow'', ''torch''}"
  shows "value_getter pb = Inr None"
  using assms by (simp add: value_getter_def)

theorem getter_sparse_unknown_backend_none_witness:
  "value_getter
     \<lparr>content = Sparse
         \<lparr>indices = \<lparr>buffer = [0, 0, 0, 0, 1, 0, 0, 0], shape = [1, 2], dtype = ''<i4''\<rparr>,
          sparse_values = \<lparr>buffer = [0, 0, 160, 64], shape = [1], dtype = ''<f4''\<rparr>,
          sparse_shape = [2, 2]\<rparr>,
      cls_name = ''paddle'', parameters = []\<rparr>
   = Inr None"
  by (rule getter_sparse_unknown_backend_none) (simp_all add: is_sparse_def)

text \<open>
  Claim C7. Setting the value of record \<open>self\<close> from another record \<open>src\<close>, given as an
  \<open>NdArray\<close> or as its raw message, leaves \<open>self\<close> equal to \<open>src\<close> in every field: the
  populated arm with its buffer bytes, the backend tag and the parameters. Nothing is
  encoded again, and \<open>src\<close> is unchanged.
\<close>

theorem passthrough_copies_record:
  assumes "self \<noteq> src" and "v = JinaNdArray src \<or> v = JinaProto src"
  shows "value_setter h self v = Inr (h(self := h src))"
  using assms
  by (auto simp: value_setter_def get_array_type_def CopyFrom_def)

theorem passthrough_copies_record_witness:
  "value_setter
     ((\<lambda>r. \<lparr>content = NotSet, cls_name = [], parameters = []\<rparr>)
        (1 := \<lparr>content = Dense \<lparr>buffer = [0, 0, 128, 63], shape = [1], dtype = ''<f4''\<rparr>,
               cls_name = ''torch'', parameters = []\<rparr>))
     0 (JinaNdArray 1)
   = Inr ((\<lambda>r. \<lparr>content = NotSet, cls_name = [], parameters = []\<rparr>)
        (1 := \<lparr>content = Dense \<lparr>buffer = [0, 0, 128, 63], shape = [1], dtype = ''<f4''\<rparr>,
               cls_name = ''torch'', parameters = []\<rparr>,
         0 := \<lparr>content = Dense \<lparr>buffer = [0, 0, 128, 63], shape = [1], dtype = ''<f4''\<rparr>,
               cls_name = ''torch'', parameters = []\<rparr>))"
  using passthrough_copies_record
    [of 0 1 "JinaNdArray 1"
        "(\<lambda>r. \<lparr>content = NotSet, cls_name = [], parameters = []\<rparr>)
           (1 := \<lparr>content = Dense \<lparr>buffer = [0, 0, 128, 63], shape = [1], dtype = ''<f4''\<rparr>,
                  cls_name = ''torch'', parameters = []\<rparr>)"]
  by simp

section \<open>Dense round trip and the batched decode\<close>

lemma np_frombuffer_exact:
  assumes "np_itemsize d = Some sz" and "length b = n * sz"
  shows "np_frombuffer b d = Inr \<lparr>nd_dtype = d, nd_shape = [n], nd_data = b\<rparr>"
proof -
  have "0 < sz" using assms(1) by (rule np_itemsize_pos)
  then show ?thesis using assms by (simp add: np_frombuffer_def)
qed

lemma filter_negative_shape [simp]: "filter (\<lambda>d. d < 0) (map int S) = []"
  by (induction S) auto

lemma filter_nonnegative_shape [simp]: "filter (\<lambda>d. 0 \<le> d) (map int S) = map int S"
  by (induction S) auto

lemma map_nat_int [simp]: "map (nat \<circ> int) S = S"
  by (induction S) auto

lemma map_infer_nonnegative [simp]:
  "map ((\<lambda>d. if d < 0 then m else nat d) \<circ> int) S = S"
  by (induction S) auto

lemma np_reshape_exact:
  assumes "prod_list (nd_shape a) = prod_list S" and "prod_list S \<noteq> 0"
    and "length S \<le> NPY_MAXDIMS" and "int (prod_list S) \<le> NPY_MAX_INTP"
  shows "np_reshape a (map int S) = Inr (a\<lparr>nd_shape := S\<rparr>)"
proof -
  note tw = takeWhile_nonzero_shape [OF assms(2)]
  show ?thesis
    using assms(1,3,4) by (simp add: np_reshape_def Let_def tw)
qed


lemma length_concat_uniform:
  assumes "\<forall>x \<in> set xs. length x = n"
  shows "length (concat xs) = length xs * n"
  using assms by (induction xs) auto

lemma take_drop_concat_uniform:
  assumes "\<forall>x \<in> set xs. length x = n" and "k < length xs"
  shows "take n (drop (k * n) (concat xs)) = xs ! k"
  using assms
proof (induction xs arbitrary: k)
  case Nil
  then show ?case by simp
next
  case (Cons x xs)
  show ?case
  proof (cases k)
    case 0
    with Cons.prems show ?thesis by simp
  next
    case (Suc j)
    with Cons.prems have "j < length xs" and "length x = n" by auto
    moreover have "take n (drop (j * n) (concat xs)) = xs ! j"
      using Cons.IH [of j] Cons.prems \<open>j < length xs\<close> by auto
    ultimately show ?thesis using Suc by simp
  qed
qed

lemma items_le_bytes:
  assumes "0 < sz" and "int (n * sz) \<le> NPY_MAX_INTP"
  shows "int n \<le> NPY_MAX_INTP"
proof -
  have "n \<le> n * sz" using assms(1) by simp
  then have "int n \<le> int (n * sz)" by (simp only: of_nat_le_iff)
  with assms(2) show ?thesis by simp
qed

lemma get_dense_array_exact:
  assumes "np_itemsize d = Some sz" and "length b = prod_list S * sz" and "b \<noteq> []"
    and "length S \<le> NPY_MAXDIMS" and "int (length b) \<le> NPY_MAX_INTP"
  shows "get_dense_array \<lparr>buffer = b, shape = S, dtype = d\<rparr>
           = Inr (Some \<lparr>nd_dtype = d, nd_shape = S, nd_data = b\<rparr>)"
proof -
  have sz_pos: "0 < sz" using assms(1) by (rule np_itemsize_pos)
  have nz: "prod_list S \<noteq> 0"
  proof
    assume "prod_list S = 0"
    then have "length b = 0" using assms(2) by (simp only: mult_0)
    then show False using assms(3) by simp
  qed
  have small: "int (prod_list S) \<le> NPY_MAX_INTP"
    using items_le_bytes [OF sz_pos, of "prod_list S"] assms(2,5) by simp
  have fb: "np_frombuffer b d = Inr \<lparr>nd_dtype = d, nd_shape = [prod_list S], nd_data = b\<rparr>"
    using assms(1,2) by (rule np_frombuffer_exact)
  have "np_reshape \<lparr>nd_dtype = d, nd_shape = [prod_list S], nd_data = b\<rparr> (map int S)
          = Inr \<lparr>nd_dtype = d, nd_shape = S, nd_data = b\<rparr>"
    using np_reshape_exact [of "\<lparr>nd_dtype = d, nd_shape = [prod_list S], nd_data = b\<rparr>" S]
      nz assms(4) small
    by simp
  with fb assms(3) show ?thesis by (simp add: get_dense_array_def)
qed

text \<open>
  Claim C1, as the code has it. For every numpy array \<open>v\<close> (dtype in the table, byte
  count matching the shape, within the limits numpy sets on every array) that holds at
  least one element, setting it as the value of a record and reading the value back
  returns \<open>v\<close> itself: the same dtype string, the same shape and the same bytes. The
  record written to and its earlier content do not matter.
\<close>

theorem numpy_round_trip:
  assumes "wf_ndarray v" and "nd_data v \<noteq> []"
  shows "set_then_get h self (NumpyArray v) = Inr (Some (NumpyArray v))"
proof -
  obtain sz where sz: "np_itemsize (nd_dtype v) = Some sz"
    and len: "length (nd_data v) = prod_list (nd_shape v) * sz"
    and axes: "length (nd_shape v) \<le> NPY_MAXDIMS"
    and bytes: "int (length (nd_data v)) \<le> NPY_MAX_INTP"
    using assms(1) by (auto simp: wf_ndarray_def split: option.splits)
  have set: "value_setter h self (NumpyArray v) = Inr (h(self := set_dense (h self) ''numpy'' v))"
    by (simp add: value_setter_def get_array_type_def)
  have dense: "dense_of (set_dense (h self) ''numpy'' v)
                 = \<lparr>buffer = nd_data v, shape = nd_shape v, dtype = nd_dtype v\<rparr>"
    by (simp add: set_dense_def set_dense_array_def dense_of_def Let_def)
  have "get_dense_array (dense_of (set_dense (h self) ''numpy'' v)) = Inr (Some v)"
    unfolding dense using get_dense_array_exact [OF sz len assms(2) axes bytes] by simp
  then have "value_getter (set_dense (h self) ''numpy'' v) = Inr (Some (NumpyArray v))"
    by (simp add: value_getter_def is_sparse_def set_dense_def Let_def to_framework_array_def)
  with set show ?thesis by (simp add: set_then_get_def)
qed

theorem numpy_round_trip_witness:
  "set_then_get (\<lambda>r. \<lparr>content = NotSet, cls_name = [], parameters = []\<rparr>) 0
     (NumpyArray \<lparr>nd_dtype = ''<f4'', nd_shape = [2, 2],
                   nd_data = [0, 0, 128, 63, 0, 0, 0, 64, 0, 0, 64, 64, 0, 0, 128, 64]\<rparr>)
   = Inr (Some (NumpyArray \<lparr>nd_dtype = ''<f4'', nd_shape = [2, 2],
                   nd_data = [0, 0, 128, 63, 0, 0, 0, 64, 0, 0, 64, 64, 0, 0, 128, 64]\<rparr>))"
  by (rule numpy_round_trip)
    (simp_all add: wf_ndarray_def np_itemsize_def np_dtypes_def NPY_MAXDIMS_def NPY_MAX_INTP_def)

text \<open>
  Claim C1 as stated fails for an array without elements: an int32 array of shape
  \<open>[0]\<close> is stored with an empty buffer, and the getter then returns
  \<open>np.zeros([0])\<close>, whose dtype is float64.
\<close>

theorem numpy_round_trip_counterexample:
  "wf_ndarray \<lparr>nd_dtype = ''<i4'', nd_shape = [0], nd_data = []\<rparr>
   \<and> set_then_get (\<lambda>r. \<lparr>content = NotSet, cls_name = [], parameters = []\<rparr>) 0
         (NumpyArray \<lparr>nd_dtype = ''<i4'', nd_shape = [0], nd_data = []\<rparr>)
       = Inr (Some (NumpyArray \<lparr>nd_dtype = ''<f8'', nd_shape = [0], nd_data = []\<rparr>))"
  by (simp add: wf_ndarray_def np_itemsize_def np_dtypes_def set_then_get_def value_setter_def
      get_array_type_def set_dense_def set_dense_array_def dense_of_def value_getter_def
      is_sparse_def get_dense_array_def np_zeros_def to_framework_array_def Let_def
      NPY_MAXDIMS_def NPY_MAX_INTP_def)





text \<open>
  The bound on the axes of \<open>S\<close> is needed: a record of one int8 item with a shape of 32
  axes is decoded by the getter, and \<open>unravel\<close> on it raises \<open>ValueError\<close>, because
  the batched array would have 33 axes.
\<close>

lemma unravel_dense_too_many_axes:
  "value_getter
     \<lparr>content = Dense \<lparr>buffer = [7], shape = replicate 32 1, dtype = ''|i1''\<rparr>,
      cls_name = ''numpy'', parameters = []\<rparr>
     = Inr (Some (NumpyArray \<lparr>nd_dtype = ''|i1'', nd_shape = replicate 32 1, nd_data = [7]\<rparr>))
   \<and> unravel
       [\<lparr>content = Dense \<lparr>buffer = [7], shape = replicate 32 1, dtype = ''|i1''\<rparr>,
         cls_name = ''numpy'', parameters = []\<rparr>]
     = Inl ValueError"
  by (simp add: value_getter_def is_sparse_def dense_of_def get_dense_array_def np_frombuffer_def
      np_itemsize_def np_dtypes_def np_reshape_def to_framework_array_def unravel_def
      unravel_dense_array_def Let_def NPY_MAXDIMS_def NPY_MAX_INTP_def)


section \<open>Sparse records: formats, batching and the stored layout\<close>

text \<open>
  Claim C4 at a concrete input. A 1 x 4 matrix in scipy's format \<open>lil\<close> with one
  entry, 5.0 at column 1, is set as the value of a record: the setter stores the entry
  and records the format \<open>lil\<close>. When the value is read back, the getter builds the
  coordinate matrix from the record, finds no branch for \<open>lil\<close> and ends without
  returning the matrix: the value read back is \<open>None\<close>. There is no fallback to
  coordinate order, and the module does not read back what it has written.
\<close>

theorem getter_drops_unrecognised_format:
  "(case value_setter (\<lambda>r. \<lparr>content = NotSet, cls_name = [], parameters = []\<rparr>) 0
           (ScipySparse
              \<lparr>sp_format = ''lil'',
               sp_row = \<lparr>nd_dtype = ''<i4'', nd_shape = [1], nd_data = [0, 0, 0, 0]\<rparr>,
               sp_col = \<lparr>nd_dtype = ''<i4'', nd_shape = [1], nd_data = [1, 0, 0, 0]\<rparr>,
               sp_data = \<lparr>nd_dtype = ''<f4'', nd_shape = [1], nd_data = [0, 0, 160, 64]\<rparr>,
               sp_shape = (1, 4)\<rparr>) of
      Inl e \<Rightarrow> None
    | Inr h' \<Rightarrow> Some (h' 0))
     = Some \<lparr>content = Sparse
               \<lparr>indices = \<lparr>buffer = [0, 0, 0, 0, 1, 0, 0, 0], shape = [1, 2], dtype = ''<i4''\<rparr>,
                sparse_values = \<lparr>buffer = [0, 0, 160, 64], shape = [1], dtype = ''<f4''\<rparr>,
                sparse_shape = [1, 4]\<rparr>,
             cls_name = ''scipy'', parameters = [(''sparse_format'', ''lil'')]\<rparr>
   \<and> get_coo_matrix
       \<lparr>content = Sparse
          \<lparr>indices = \<lparr>buffer = [0, 0, 0, 0, 1, 0, 0, 0], shape = [1, 2], dtype = ''<i4''\<rparr>,
           sparse_values = \<lparr>buffer = [0, 0, 160, 64], shape = [1], dtype = ''<f4''\<rparr>,
           sparse_shape = [1, 4]\<rparr>,
        cls_name = ''scipy'', parameters = [(''sparse_format'', ''lil'')]\<rparr>
     = Inr \<lparr>sp_format = ''coo'',
            sp_row = \<lparr>nd_dtype = ''<i4'', nd_shape = [1], nd_data = [0, 0, 0, 0]\<rparr>,
            sp_col = \<lparr>nd_dtype = ''<i4'', nd_shape = [1], nd_data = [1, 0, 0, 0]\<rparr>,
            sp_data = \<lparr>nd_dtype = ''<f4'', nd_shape = [1], nd_data = [0, 0, 160, 64]\<rparr>,
            sp_shape = (1, 4)\<rparr>
   \<and> value_getter
       \<lparr>content = Sparse
          \<lparr>indices = \<lparr>buffer = [0, 0, 0, 0, 1, 0, 0, 0], shape = [1, 2], dtype = ''<i4''\<rparr>,
           sparse_values = \<lparr>buffer = [0, 0, 160, 64], shape = [1], dtype = ''<f4''\<rparr>,
           sparse_shape = [1, 4]\<rparr>,
        cls_name = ''scipy'', parameters = [(''sparse_format'', ''lil'')]\<rparr>
     = Inr None
   \<and> set_then_get (\<lambda>r. \<lparr>content = NotSet, cls_name = [], parameters = []\<rparr>) 0
         (ScipySparse
            \<lparr>sp_format = ''lil'',
             sp_row = \<lparr>nd_dtype = ''<i4'', nd_shape = [1], nd_data = [0, 0, 0, 0]\<rparr>,
             sp_col = \<lparr>nd_dtype = ''<i4'', nd_shape = [1], nd_data = [1, 0, 0, 0]\<rparr>,
             sp_data = \<lparr>nd_dtype = ''<f4'', nd_shape = [1], nd_data = [0, 0, 160, 64]\<rparr>,
             sp_shape = (1, 4)\<rparr>)
       = Inr None"
  by code_simp

text \<open>
  Claim C3 at a concrete input. Two records, each a 1 x 4 matrix with one entry:
  5.0 at column 1 and 7.0 at column 3, stored as the setter stores them (index rows
  \<open>(row, col)\<close>). \<open>unravel\<close> returns a 2 x 4 matrix with 5.0 at \<open>(0, 0)\<close> and 7.0 at
  \<open>(1, 3)\<close>: the column of the first record is wrong, because
  \<open>indices_np.reshape(2, -1)[1, :]\<close> is the second half of the concatenated index buffer,
  not every second element. The getter decodes the first record with column 1.
\<close>

theorem unravel_scipy_takes_wrong_columns:
  "unravel
     [\<lparr>content = Sparse
          \<lparr>indices = \<lparr>buffer = [0, 0, 0, 0, 1, 0, 0, 0], shape = [1, 2], dtype = ''<i4''\<rparr>,
           sparse_values = \<lparr>buffer = [0, 0, 160, 64], shape = [1], dtype = ''<f4''\<rparr>,
           sparse_shape = [1, 4]\<rparr>,
       cls_name = ''scipy'', parameters = [(''sparse_format'', ''csr'')]\<rparr>,
      \<lparr>content = Sparse
          \<lparr>indices = \<lparr>buffer = [0, 0, 0, 0, 3, 0, 0, 0], shape = [1, 2], dtype = ''<i4''\<rparr>,
           sparse_values = \<lparr>buffer = [0, 0, 224, 64], shape = [1], dtype = ''<f4''\<rparr>,
           sparse_shape = [1, 4]\<rparr>,
       cls_name = ''scipy'', parameters = [(''sparse_format'', ''csr'')]\<rparr>]
   = Inr (Some (ScipySparse
       \<lparr>sp_format = ''csr'',
        sp_row = \<lparr>nd_dtype = ''<i4'', nd_shape = [2], nd_data = [0, 0, 0, 0, 1, 0, 0, 0]\<rparr>,
        sp_col = \<lparr>nd_dtype = ''<i4'', nd_shape = [2], nd_data = [0, 0, 0, 0, 3, 0, 0, 0]\<rparr>,
        sp_data = \<lparr>nd_dtype = ''<f4'', nd_shape = [2],
                   nd_data = [0, 0, 160, 64, 0, 0, 224, 64]\<rparr>,
        sp_shape = (2, 4)\<rparr>))
   \<and> value_getter
       \<lparr>content = Sparse
          \<lparr>indices = \<lparr>buffer = [0, 0, 0, 0, 1, 0, 0, 0], shape = [1, 2], dtype = ''<i4''\<rparr>,
           sparse_values = \<lparr>buffer = [0, 0, 160, 64], shape = [1], dtype = ''<f4''\<rparr>,
           sparse_shape = [1, 4]\<rparr>,
        cls_name = ''scipy'', parameters = [(''sparse_format'', ''csr'')]\<rparr>
     = Inr (Some (ScipySparse
       \<lparr>sp_format = ''csr'',
        sp_row = \<lparr>nd_dtype = ''<i4'', nd_shape = [1], nd_data = [0, 0, 0, 0]\<rparr>,
        sp_col = \<lparr>nd_dtype = ''<i4'', nd_shape = [1], nd_data = [1, 0, 0, 0]\<rparr>,
        sp_data = \<lparr>nd_dtype = ''<f4'', nd_shape = [1], nd_data = [0, 0, 160, 64]\<rparr>,
        sp_shape = (1, 4)\<rparr>))"
  by code_simp

lemma chunks_Nil [simp]: "chunks n [] = []"
  by (simp add: chunks.simps)

lemma chunks_uniform:
  assumes "0 < sz" and "length xs = n * sz"
  shows "chunks sz xs = map (\<lambda>k. take sz (drop (k * sz) xs)) [0..<n]"
  using assms(2)
proof (induction n arbitrary: xs)
  case 0
  then show ?case by simp
next
  case (Suc n)
  from Suc.prems assms(1) have ne: "xs \<noteq> []" by auto
  have rest: "length (drop sz xs) = n * sz" using Suc.prems by simp
  have "chunks sz xs = take sz xs # chunks sz (drop sz xs)"
    using assms(1) ne by (subst chunks.simps) simp
  also have "chunks sz (drop sz xs) = map (\<lambda>k. take sz (drop (k * sz) (drop sz xs))) [0..<n]"
    using Suc.IH [OF rest] .
  also have "\<dots> = map ((\<lambda>k. take sz (drop (k * sz) xs)) \<circ> Suc) [0..<n]"
    by (simp add: add.commute)
  finally show ?case
    by (simp add: map_upt_Suc del: upt_Suc)
qed

lemma np_getitem_1d:
  assumes "np_itemsize (nd_dtype a) = Some sz" and "nd_shape a = [n]"
    and "length (nd_data a) = n * sz" and "k < n"
  shows "np_getitem a k
           = Inr \<lparr>nd_dtype = nd_dtype a, nd_shape = [], nd_data = take sz (drop (k * sz) (nd_data a))\<rparr>"
  using assms by (simp add: np_getitem_def)

lemma stack_rows:
  assumes "0 < sz" and "length xs = n * sz" and "length ys = n * sz" and "k < n"
  shows "take (2 * sz) (drop (k * (2 * sz)) (concat (map2 (@) (chunks sz xs) (chunks sz ys))))
           = take sz (drop (k * sz) xs) @ take sz (drop (k * sz) ys)"
    and "length (concat (map2 (@) (chunks sz xs) (chunks sz ys))) = n * (2 * sz)"
proof -
  let ?f = "\<lambda>k. take sz (drop (k * sz) xs) @ take sz (drop (k * sz) ys)"
  have cx: "chunks sz xs = map (\<lambda>k. take sz (drop (k * sz) xs)) [0..<n]"
    and cy: "chunks sz ys = map (\<lambda>k. take sz (drop (k * sz) ys)) [0..<n]"
    using assms by (simp_all add: chunks_uniform)
  have pairs: "map2 (@) (chunks sz xs) (chunks sz ys) = map ?f [0..<n]"
    unfolding cx cy by (simp add: zip_map_map zip_same_conv_map)
  have len: "length (?f j) = 2 * sz" if "j < n" for j
  proof -
    have "Suc j * sz \<le> n * sz" using that by (intro mult_le_mono1) simp
    then have "j * sz + sz \<le> length xs" and "j * sz + sz \<le> length ys"
      using assms by simp_all
    then show ?thesis by simp
  qed
  then have uniform: "\<forall>c \<in> set (map ?f [0..<n]). length c = 2 * sz"
    by auto
  show "take (2 * sz) (drop (k * (2 * sz)) (concat (map2 (@) (chunks sz xs) (chunks sz ys))))
           = take sz (drop (k * sz) xs) @ take sz (drop (k * sz) ys)"
    unfolding pairs using take_drop_concat_uniform [OF uniform, of k] assms(4) by simp
  show "length (concat (map2 (@) (chunks sz xs) (chunks sz ys))) = n * (2 * sz)"
    unfolding pairs using length_concat_uniform [OF uniform] by simp
qed

lemma scipy_detected:
  assumes "sp_format m \<in> set scipy_formats"
  shows "get_array_type (ScipySparse m) = Inr (''scipy'', True)"
  using assms by (auto simp: get_array_type_def scipy_formats_def)

lemma scipy_encode_layout:
  assumes "scipy_value m nnz"
  shows "\<exists>h'. value_setter h self (ScipySparse m) = Inr h'
           \<and> shape (indices (sparse_of (h' self))) = [nnz, 2]
           \<and> shape (sparse_values (sparse_of (h' self))) = [nnz]
           \<and> as_array (sparse_values (sparse_of (h' self))) = sp_data m
           \<and> (\<forall>k < nnz. \<exists>r c.
                 np_getitem (sp_row m) k = Inr r \<and> np_getitem (sp_col m) k = Inr c
                 \<and> np_getitem (as_array (indices (sparse_of (h' self)))) k
                     = Inr \<lparr>nd_dtype = nd_dtype (sp_row m), nd_shape = [2],
                            nd_data = nd_data r @ nd_data c\<rparr>)"
proof -
  let ?d = "nd_dtype (sp_row m)"
  let ?rd = "nd_data (sp_row m)" and ?cd = "nd_data (sp_col m)"
  from assms obtain sz where sz: "np_itemsize ?d = Some sz"
    and rlen: "length ?rd = nnz * sz"
    by (auto simp: scipy_value_def wf_ndarray_def split: option.splits)
  from assms sz have clen: "length ?cd = nnz * sz"
    by (auto simp: scipy_value_def wf_ndarray_def split: option.splits)
  from assms have shapes: "nd_shape (sp_row m) = [nnz]" "nd_shape (sp_col m) = [nnz]"
    "nd_shape (sp_data m) = [nnz]" "nd_dtype (sp_col m) = ?d"
    and fmt: "sp_format m \<in> set scipy_formats"
    by (simp_all add: scipy_value_def)
  have sz_pos: "0 < sz" using sz by (rule np_itemsize_pos)
  let ?stacked = "concat (map2 (@) (chunks sz ?rd) (chunks sz ?cd))"
  let ?pb0 = "(h self)\<lparr>parameters :=
                 AList.update ''sparse_format'' (sp_format m) (parameters (h self))\<rparr>"
  let ?s = "\<lparr>indices = \<lparr>buffer = ?stacked, shape = [nnz, 2], dtype = ?d\<rparr>,
             sparse_values = \<lparr>buffer = nd_data (sp_data m), shape = [nnz],
                              dtype = nd_dtype (sp_data m)\<rparr>,
             sparse_shape = [fst (sp_shape m), snd (sp_shape m)]\<rparr>"
  have stack: "np_stack_axis1 (sp_row (tocoo m)) (sp_col (tocoo m))
                 = Inr \<lparr>nd_dtype = ?d, nd_shape = [nnz, 2], nd_data = ?stacked\<rparr>"
    using shapes sz by (simp add: np_stack_axis1_def tocoo_def)
  have "set_scipy_sparse ?pb0 m = Inr (?pb0\<lparr>content := Sparse ?s, cls_name := ''scipy''\<rparr>)"
    using stack shapes
    by (simp add: set_scipy_sparse_def Let_def set_dense_array_def tocoo_def)
  then have set: "value_setter h self (ScipySparse m)
                    = Inr (h(self := ?pb0\<lparr>content := Sparse ?s, cls_name := ''scipy''\<rparr>))"
    using scipy_detected [OF fmt] by (simp add: value_setter_def)
  have rows: "\<exists>r c. np_getitem (sp_row m) k = Inr r \<and> np_getitem (sp_col m) k = Inr c
                 \<and> np_getitem (as_array (indices ?s)) k
                     = Inr \<lparr>nd_dtype = ?d, nd_shape = [2], nd_data = nd_data r @ nd_data c\<rparr>"
    if k: "k < nnz" for k
  proof -
    have r: "np_getitem (sp_row m) k
               = Inr \<lparr>nd_dtype = ?d, nd_shape = [], nd_data = take sz (drop (k * sz) ?rd)\<rparr>"
      using np_getitem_1d [OF sz shapes(1) rlen k] .
    have c: "np_getitem (sp_col m) k
               = Inr \<lparr>nd_dtype = ?d, nd_shape = [], nd_data = take sz (drop (k * sz) ?cd)\<rparr>"
      using np_getitem_1d [of "sp_col m" sz nnz k] sz shapes clen k by simp
    have "length ?stacked div nnz = 2 * sz"
      using stack_rows(2) [OF sz_pos rlen clen k] k by simp
    then have "np_getitem (as_array (indices ?s)) k
        = Inr \<lparr>nd_dtype = ?d, nd_shape = [2],
               nd_data = take sz (drop (k * sz) ?rd) @ take sz (drop (k * sz) ?cd)\<rparr>"
      using stack_rows(1) [OF sz_pos rlen clen k] k
      by (simp add: np_getitem_def as_array_def)
    with r c show ?thesis by simp
  qed
  have "as_array (sparse_values ?s) = sp_data m"
    using shapes(3) by (cases "sp_data m") (simp add: as_array_def)
  with set rows show ?thesis
    by (intro exI [of _ "h(self := ?pb0\<lparr>content := Sparse ?s, cls_name := ''scipy''\<rparr>)"])
      (simp add: sparse_of_def)
qed

lemma tf_encode_layout:
  assumes "tf_value idx vals shp nnz"
  shows "\<exists>h'. value_setter h self (TfSparseTensor idx vals shp) = Inr h'
           \<and> as_array (indices (sparse_of (h' self))) = idx
           \<and> as_array (sparse_values (sparse_of (h' self))) = vals
           \<and> shape (indices (sparse_of (h' self))) = [nnz, length shp]
           \<and> shape (sparse_values (sparse_of (h' self))) = [nnz]"
  using assms
  by (simp add: value_setter_def get_array_type_def set_tf_sparse_def Let_def sparse_of_def
      set_dense_array_def as_array_def tf_value_def)

lemma torch_encode_layout:
  assumes "torch_value idx vals shp sparse_dim nnz"
  shows "\<exists>h'. value_setter h self (TorchSparseTensor idx vals shp) = Inr h'
           \<and> as_array (indices (sparse_of (h' self))) = idx
           \<and> as_array (sparse_values (sparse_of (h' self))) = vals
           \<and> shape (indices (sparse_of (h' self))) = [sparse_dim, nnz]
           \<and> shape (sparse_values (sparse_of (h' self))) = nnz # drop sparse_dim shp"
  using assms
  by (simp add: value_setter_def get_array_type_def set_torch_sparse_def Let_def sparse_of_def
      set_dense_array_def as_array_def torch_value_def)

text \<open>
  Claim C8, as the code has it. After the setter has encoded a native sparse value with
  \<open>nnz\<close> stored entries: for scipy the stored indices have shape \<open>[nnz, 2]\<close>, row
  \<open>k\<close> being the row and the column coordinate of entry \<open>k\<close>, and the stored values are
  the matrix data, of shape \<open>[nnz]\<close>; for tensorflow the indices and values are stored as
  they are, with shapes \<open>[nnz, ndim]\<close> and \<open>[nnz]\<close>; for torch the indices and values of
  the coalesced tensor are stored as they are, the indices with shape
  \<open>[sparse_dim, nnz]\<close> (one column per entry) and the values with shape \<open>[nnz, ...]\<close>.
\<close>

theorem sparse_encode_layout:
  "(scipy_value m nnz \<longrightarrow>
      (\<exists>h'. value_setter h self (ScipySparse m) = Inr h'
         \<and> shape (indices (sparse_of (h' self))) = [nnz, 2]
         \<and> shape (sparse_values (sparse_of (h' self))) = [nnz]
         \<and> as_array (sparse_values (sparse_of (h' self))) = sp_data m
         \<and> (\<forall>k < nnz. \<exists>r c.
               np_getitem (sp_row m) k = Inr r \<and> np_getitem (sp_col m) k = Inr c
               \<and> np_getitem (as_array (indices (sparse_of (h' self)))) k
                   = Inr \<lparr>nd_dtype = nd_dtype (sp_row m), nd_shape = [2],
                          nd_data = nd_data r @ nd_data c\<rparr>)))
   \<and> (tf_value idx vals shp nnz_tf \<longrightarrow>
      (\<exists>h'. value_setter h self (TfSparseTensor idx vals shp) = Inr h'
         \<and> as_array (indices (sparse_of (h' self))) = idx
         \<and> as_array (sparse_values (sparse_of (h' self))) = vals
         \<and> shape (indices (sparse_of (h' self))) = [nnz_tf, length shp]
         \<and> shape (sparse_values (sparse_of (h' self))) = [nnz_tf]))
   \<and> (torch_value tidx tvals tshp sparse_dim nnz_t \<longrightarrow>
      (\<exists>h'. value_setter h self (TorchSparseTensor tidx tvals tshp) = Inr h'
         \<and> as_array (indices (sparse_of (h' self))) = tidx
         \<and> as_array (sparse_values (sparse_of (h' self))) = tvals
         \<and> shape (indices (sparse_of (h' self))) = [sparse_dim, nnz_t]
         \<and> shape (sparse_values (sparse_of (h' self))) = nnz_t # drop sparse_dim tshp))"
  using scipy_encode_layout [of m nnz h self] tf_encode_layout [of idx vals shp nnz_tf h self]
    torch_encode_layout [of tidx tvals tshp sparse_dim nnz_t h self]
  by (intro conjI impI)

theorem sparse_encode_layout_witness:
  "(\<exists>h'. value_setter (\<lambda>r. \<lparr>content = NotSet, cls_name = [], parameters = []\<rparr>) 0
            (ScipySparse
               \<lparr>sp_format = ''csr'',
                sp_row = \<lparr>nd_dtype = ''<i4'', nd_shape = [3], nd_data = [0, 0, 0, 0, 0, 0, 0, 0, 1, 0, 0, 0]\<rparr>,
                sp_col = \<lparr>nd_dtype = ''<i4'', nd_shape = [3], nd_data = [0, 0, 0, 0, 2, 0, 0, 0, 1, 0, 0, 0]\<rparr>,
                sp_data = \<lparr>nd_dtype = ''|u1'', nd_shape = [3], nd_data = [5, 6, 7]\<rparr>,
                sp_shape = (2, 3)\<rparr>) = Inr h'
        \<and> shape (indices (sparse_of (h' 0))) = [3, 2]
        \<and> shape (sparse_values (sparse_of (h' 0))) = [3])
   \<and> (\<exists>h'. value_setter (\<lambda>r. \<lparr>content = NotSet, cls_name = [], parameters = []\<rparr>) 0
            (TfSparseTensor
               \<lparr>nd_dtype = ''|i1'', nd_shape = [3, 2], nd_data = [0, 0, 0, 2, 1, 1]\<rparr>
               \<lparr>nd_dtype = ''|u1'', nd_shape = [3], nd_data = [5, 6, 7]\<rparr> [2, 3]) = Inr h'
        \<and> shape (indices (sparse_of (h' 0))) = [3, 2]
        \<and> shape (sparse_values (sparse_of (h' 0))) = [3])
   \<and> (\<exists>h'. value_setter (\<lambda>r. \<lparr>content = NotSet, cls_name = [], parameters = []\<rparr>) 0
            (TorchSparseTensor
               \<lparr>nd_dtype = ''|i1'', nd_shape = [2, 3], nd_data = [0, 0, 1, 0, 2, 1]\<rparr>
               \<lparr>nd_dtype = ''|u1'', nd_shape = [3], nd_data = [5, 6, 7]\<rparr> [2, 3]) = Inr h'
        \<and> shape (indices (sparse_of (h' 0))) = [2, 3]
        \<and> shape (sparse_values (sparse_of (h' 0))) = [3])"
proof -
  let ?h = "\<lambda>r :: ref. \<lparr>content = NotSet, cls_name = [], parameters = []\<rparr>"
  let ?m = "\<lparr>sp_format = ''csr'',
              sp_row = \<lparr>nd_dtype = ''<i4'', nd_shape = [3], nd_data = [0, 0, 0, 0, 0, 0, 0, 0, 1, 0, 0, 0]\<rparr>,
              sp_col = \<lparr>nd_dtype = ''<i4'', nd_shape = [3], nd_data = [0, 0, 0, 0, 2, 0, 0, 0, 1, 0, 0, 0]\<rparr>,
              sp_data = \<lparr>nd_dtype = ''|u1'', nd_shape = [3], nd_data = [5, 6, 7]\<rparr>,
              sp_shape = (2, 3)\<rparr>"
  let ?idx = "\<lparr>nd_dtype = ''|i1'', nd_shape = [3, 2], nd_data = [0, 0, 0, 2, 1, 1]\<rparr>"
  let ?tidx = "\<lparr>nd_dtype = ''|i1'', nd_shape = [2, 3], nd_data = [0, 0, 1, 0, 2, 1]\<rparr>"
  let ?vals = "\<lparr>nd_dtype = ''|u1'', nd_shape = [3], nd_data = [5, 6, 7]\<rparr>"
  have a: "scipy_value ?m 3"
    by (simp add: scipy_value_def scipy_formats_def wf_ndarray_def np_itemsize_def np_dtypes_def
        NPY_MAXDIMS_def NPY_MAX_INTP_def)
  have b: "tf_value ?idx ?vals [2, 3] 3"
    by (simp add: tf_value_def)
  have c: "torch_value ?tidx ?vals [2, 3] 2 3"
    by (simp add: torch_value_def)
  note layout = sparse_encode_layout
    [where m = ?m and nnz = 3 and h = ?h and self = 0 and idx = ?idx and vals = ?vals
       and shp = "[2, 3]" and nnz_tf = 3 and tidx = ?tidx and tvals = ?vals
       and tshp = "[2, 3]" and sparse_dim = 2 and nnz_t = 3]
  from layout [THEN conjunct1, THEN mp, OF a]
  obtain h1 where h1: "value_setter ?h 0 (ScipySparse ?m) = Inr h1"
      "shape (indices (sparse_of (h1 0))) = [3, 2]"
      "shape (sparse_values (sparse_of (h1 0))) = [3]"
    by (elim exE conjE)
  from layout [THEN conjunct2, THEN conjunct1, THEN mp, OF b]
  obtain h2 where h2: "value_setter ?h 0 (TfSparseTensor ?idx ?vals [2, 3]) = Inr h2"
      "shape (indices (sparse_of (h2 0))) = [3, length [2 :: nat, 3]]"
      "shape (sparse_values (sparse_of (h2 0))) = [3]"
    by (elim exE conjE)
  from layout [THEN conjunct2, THEN conjunct2, THEN mp, OF c]
  obtain h3 where h3: "value_setter ?h 0 (TorchSparseTensor ?tidx ?vals [2, 3]) = Inr h3"
      "shape (indices (sparse_of (h3 0))) = [2, 3]"
      "shape (sparse_values (sparse_of (h3 0))) = 3 # drop 2 [2 :: nat, 3]"
    by (elim exE conjE)
  from h2(2) have h2': "shape (indices (sparse_of (h2 0))) = [3, 2]"
    by simp
  from h3(3) have h3': "shape (sparse_values (sparse_of (h3 0))) = [3]"
    by simp
  from h1 h2(1,3) h2' h3(1,2) h3' show ?thesis
    by (intro conjI exI [of _ h1] exI [of _ h2] exI [of _ h3])
qed

text \<open>
  Claim C8 as stated fails for torch: a 2 x 3 tensor with three entries has indices of
  shape \<open>[2, 3]\<close>, which the setter stores unchanged, so the stored indices do not have
  shape \<open>(nnz, ndim) = (3, 2)\<close> and their first dimension is not the number of values.
\<close>

theorem sparse_encode_torch_counterexample:
  "torch_value
     \<lparr>nd_dtype = ''|i1'', nd_shape = [2, 3], nd_data = [0, 0, 1, 0, 2, 1]\<rparr>
     \<lparr>nd_dtype = ''|u1'', nd_shape = [3], nd_data = [5, 6, 7]\<rparr> [2, 3] 2 3
   \<and> (case value_setter (\<lambda>r. \<lparr>content = NotSet, cls_name = [], parameters = []\<rparr>) 0
            (TorchSparseTensor
               \<lparr>nd_dtype = ''|i1'', nd_shape = [2, 3], nd_data = [0, 0, 1, 0, 2, 1]\<rparr>
               \<lparr>nd_dtype = ''|u1'', nd_shape = [3], nd_data = [5, 6, 7]\<rparr> [2, 3]) of
         Inl e \<Rightarrow> None
       | Inr h' \<Rightarrow> Some (shape (indices (sparse_of (h' 0))),
                         shape (sparse_values (sparse_of (h' 0)))))
     = Some ([2, 3], [3])"
  by (simp add: torch_value_def value_setter_def get_array_type_def set_torch_sparse_def Let_def
      sparse_of_def set_dense_array_def)

end
